theory Spec2Isabelle
  imports Main "HOL-Library.AList"
begin

section \<open>Model of the language client (client/src/common/client.ts)\<close>

subsection \<open>Error handler results\<close>

datatype ErrorAction = Continue | Shutdown

datatype CloseAction = DoNotRestart | Restart

record ErrorHandlerResult =
  error_action :: ErrorAction
  error_message :: "string option"

record CloseHandlerResult =
  close_action :: CloseAction
  close_message :: "string option"

subsection \<open>DefaultErrorHandler\<close>

text \<open>
  The handler keeps the client's name (the only part of the client it reads), the
  configured \<open>maxRestartCount\<close> and the array \<open>restarts\<close> of close timestamps
  (milliseconds, as \<open>Date.now()\<close> returns them).
\<close>

record DefaultErrorHandler =
  client_name :: string
  maxRestartCount :: int
  restarts :: "int list"

datatype handler_error = InvalidMaxRestartCount int

text \<open>
  \<open>createDefaultErrorHandler(maxRestartCount?)\<close>: a negative count throws, an
  undefined one becomes 4; the constructor starts with no recorded restart.
\<close>

definition createDefaultErrorHandler :: "string \<Rightarrow> int option \<Rightarrow> handler_error + DefaultErrorHandler" where
  "createDefaultErrorHandler name m =
     (case m of
        Some k \<Rightarrow>
          (if k < 0 then Inl (InvalidMaxRestartCount k)
           else Inr \<lparr>client_name = name, maxRestartCount = k, restarts = []\<rparr>)
      | None \<Rightarrow> Inr \<lparr>client_name = name, maxRestartCount = 4, restarts = []\<rparr>)"

text \<open>
  \<open>error(_error, _message, count)\<close>. The interface passes \<open>number | undefined\<close>;
  \<open>None\<close> is \<open>undefined\<close>. The test \<open>count && count <= 3\<close> is the truthiness of
  \<open>count\<close> (defined and not zero) followed by the comparison. The first two arguments are
  not read.
\<close>

definition truthy_number :: "int option \<Rightarrow> bool" where
  "truthy_number c = (case c of None \<Rightarrow> False | Some n \<Rightarrow> n \<noteq> 0)"

definition DefaultErrorHandler_error :: "int option \<Rightarrow> ErrorHandlerResult" where
  "DefaultErrorHandler_error count =
     (if truthy_number count \<and> (case count of Some n \<Rightarrow> n \<le> 3 | None \<Rightarrow> False)
      then \<lparr>error_action = Continue, error_message = None\<rparr>
      else \<lparr>error_action = Shutdown, error_message = None\<rparr>)"

text \<open>Decimal rendering of a number inside a template string.\<close>

fun string_of_nat :: "nat \<Rightarrow> string" where
  "string_of_nat n =
     (if n < 10 then [char_of (48 + n)]
      else string_of_nat (n div 10) @ [char_of (48 + n mod 10)])"

definition string_of_int :: "int \<Rightarrow> string" where
  "string_of_int i = (if i < 0 then CHR ''-'' # string_of_nat (nat (- i)) else string_of_nat (nat i))"

definition crash_message :: "DefaultErrorHandler \<Rightarrow> string" where
  "crash_message h =
     ''The '' @ client_name h @ '' server crashed '' @ string_of_int (maxRestartCount h + 1)
       @ '' times in the last 3 minutes. The server will not be restarted. See the output for more information.''"

text \<open>
  \<open>closed()\<close>, with the value of \<open>Date.now()\<close> as the argument \<open>now\<close>. The timestamp
  is pushed first, so the array read by \<open>restarts[0]\<close> and \<open>restarts[length - 1]\<close> is
  never empty. \<open>shift()\<close> drops the first element.
\<close>

definition DefaultErrorHandler_closed :: "int \<Rightarrow> DefaultErrorHandler \<Rightarrow> CloseHandlerResult \<times> DefaultErrorHandler" where
  "DefaultErrorHandler_closed now h =
     (let rs = restarts h @ [now] in
      if int (length rs) \<le> maxRestartCount h
      then (\<lparr>close_action = Restart, close_message = None\<rparr>, h\<lparr>restarts := rs\<rparr>)
      else
        (let diff = last rs - hd rs in
         if diff \<le> 3 * 60 * 1000
         then (\<lparr>close_action = DoNotRestart, close_message = Some (crash_message h)\<rparr>, h\<lparr>restarts := rs\<rparr>)
         else (\<lparr>close_action = Restart, close_message = None\<rparr>, h\<lparr>restarts := tl rs\<rparr>)))"

text \<open>A sequence of calls of \<open>closed()\<close> at the given times, with the results in order.\<close>

fun closed_calls :: "int list \<Rightarrow> DefaultErrorHandler \<Rightarrow> CloseHandlerResult list \<times> DefaultErrorHandler" where
  "closed_calls [] h = ([], h)"
| "closed_calls (t # ts) h =
     (let (r, h1) = DefaultErrorHandler_closed t h;
          (rs, h2) = closed_calls ts h1
      in (r # rs, h2))"

subsection \<open>handleFailedRequest\<close>

text \<open>
  The error passed in is either a \<open>ResponseError\<close> (numeric code, optional data) or
  any other thrown value. The numeric values of \<open>LSPErrorCodes\<close> and the method names
  in the static set \<open>RequestsToCancelOnContentModified\<close> are declared in the protocol
  package; they are parameters of the model.
\<close>

datatype 'd request_error = ResponseError int "'d option" | OtherError string

record LSPErrorCodes =
  RequestCancelled :: int
  ServerCancelled :: int
  ContentModified :: int

datatype 'd thrown = LSPCancellationError 'd | CancellationError | Rethrown "'d request_error"

datatype ('a, 'd) request_outcome = Returned 'a | Thrown "'d thrown"

datatype 'd error_log_entry = ErrorLogged string "'d request_error" bool

text \<open>
  \<open>handleFailedRequest(type, token, error, defaultValue, showNotification)\<close>.
  The token is \<open>None\<close> when undefined and otherwise carries
  \<open>isCancellationRequested\<close>. The result pairs the outcome with the calls of
  \<open>this.error\<close> made on the way.
\<close>

definition handleFailedRequest ::
  "LSPErrorCodes \<Rightarrow> string list \<Rightarrow> string \<Rightarrow> bool option \<Rightarrow> 'd request_error \<Rightarrow> 'a \<Rightarrow> bool
     \<Rightarrow> ('a, 'd) request_outcome \<times> 'd error_log_entry list" where
  "handleFailedRequest codes RequestsToCancelOnContentModified method token error defaultValue showNotification =
     (let fallthrough =
            (Thrown (Rethrown error),
             [ErrorLogged (''Request '' @ method @ '' failed.'') error showNotification])
      in case error of
        ResponseError code data \<Rightarrow>
          if code = RequestCancelled codes \<or> code = ServerCancelled codes then
            (if token \<noteq> None \<and> token = Some True then (Returned defaultValue, [])
             else (case data of
                     Some d \<Rightarrow> (Thrown (LSPCancellationError d), [])
                   | None \<Rightarrow> (Thrown CancellationError, [])))
          else if code = ContentModified codes then
            (if method \<in> set RequestsToCancelOnContentModified
             then (Thrown CancellationError, [])
             else (Returned defaultValue, []))
          else fallthrough
      | OtherError _ \<Rightarrow> fallthrough)"

subsection \<open>handleApplyWorkspaceEdit\<close>

text \<open>
  A document change is a \<open>TextDocumentEdit\<close> (the document's URI and its
  \<open>number | null\<close> version) or a create, rename or delete file operation, for which
  \<open>TextDocumentEdit.is\<close> is false.
\<close>

datatype DocumentChange =
    TextDocumentEdit string "int option"
  | CreateFile string
  | RenameFile string string
  | DeleteFile string

record WorkspaceEdit =
  documentChanges :: "DocumentChange list option"

record TextDocument =
  uri :: string
  version :: int

record ApplyWorkspaceEditResult =
  applied :: bool

text \<open>
  \<open>openTextDocuments\<close>: the map filled by \<open>Workspace.textDocuments.forEach\<close>, a later
  document replacing an earlier one with the same URI string.
\<close>

definition openTextDocuments :: "TextDocument list \<Rightarrow> (string \<rightharpoonup> TextDocument)" where
  "openTextDocuments docs = fold (\<lambda>document m. m(uri document \<mapsto> document)) docs Map.empty"

text \<open>
  The loop over \<open>documentChanges\<close> that sets \<open>versionMismatch\<close> and breaks at the
  first mismatch. \<open>change.textDocument.version && change.textDocument.version >= 0\<close>
  is the truthiness of the version followed by the comparison.
\<close>

fun versionMismatch :: "(string \<rightharpoonup> TextDocument) \<Rightarrow> DocumentChange list \<Rightarrow> bool" where
  "versionMismatch openDocs [] = False"
| "versionMismatch openDocs (TextDocumentEdit u v # changes) =
     (if truthy_number v \<and> (case v of Some n \<Rightarrow> n \<ge> 0 | None \<Rightarrow> False) then
        (case openDocs u of
           Some textDocument \<Rightarrow>
             (if Some (version textDocument) \<noteq> v then True
              else versionMismatch openDocs changes)
         | None \<Rightarrow> versionMismatch openDocs changes)
      else versionMismatch openDocs changes)"
| "versionMismatch openDocs (_ # changes) = versionMismatch openDocs changes"

text \<open>
  The host: the open documents, and \<open>Workspace.applyEdit\<close> as the function giving its
  answer for a converted edit. Calls of \<open>applyEdit\<close> are returned as a trace. The
  conversion \<open>asWorkspaceEdit\<close> belongs to the protocol converter and is a parameter; it
  runs under \<open>workspaceEditLock\<close> before the version check, whatever the check finds.
\<close>

record 'c Workspace =
  textDocuments :: "TextDocument list"
  applyEdit :: "'c \<Rightarrow> bool"

datatype 'c host_call = ApplyEdit 'c

definition handleApplyWorkspaceEdit ::
  "(WorkspaceEdit \<Rightarrow> 'c) \<Rightarrow> 'c Workspace \<Rightarrow> WorkspaceEdit \<Rightarrow> ApplyWorkspaceEditResult \<times> 'c host_call list" where
  "handleApplyWorkspaceEdit asWorkspaceEdit workspace workspaceEdit =
     (let converted = asWorkspaceEdit workspaceEdit;
          openDocs = openTextDocuments (textDocuments workspace);
          mismatch = (case documentChanges workspaceEdit of
                        Some changes \<Rightarrow> versionMismatch openDocs changes
                      | None \<Rightarrow> False)
      in if mismatch then (\<lparr>applied = False\<rparr>, [])
         else (\<lparr>applied = applyEdit workspace converted\<rparr>, [ApplyEdit converted]))"

subsection \<open>handleRegistrationRequest\<close>

type_synonym DocumentSelector = "string list"

record RegisterOptions =
  documentSelector :: "DocumentSelector option"
  otherOptions :: string

record Registration =
  reg_id :: string
  reg_method :: string
  registerOptions :: "RegisterOptions option"

record RegistrationData =
  data_id :: string
  data_registerOptions :: RegisterOptions

datatype registration_error = NoFeatureImplementation string | RegisterFailed string

text \<open>
  A dynamic feature is implemented outside this file. The model keeps the registrations
  it has accepted, in order, and the behaviour of its \<open>register\<close>: whether the call
  throws for a given registration in a given state of the feature. The client catches such
  a throw and rejects the request with it.
\<close>

record DynamicFeature =
  registrations :: "RegistrationData list"
  register_throws :: "RegistrationData list \<Rightarrow> RegistrationData \<Rightarrow> string option"

definition feature_register :: "RegistrationData \<Rightarrow> DynamicFeature \<Rightarrow> registration_error + DynamicFeature" where
  "feature_register data feature =
     (case register_throws feature (registrations feature) data of
        Some err \<Rightarrow> Inl (RegisterFailed err)
      | None \<Rightarrow> Inr (feature\<lparr>registrations := registrations feature @ [data]\<rparr>))"

text \<open>
  The data handed to the feature: \<open>registerOptions ?? {}\<close> with its
  \<open>documentSelector\<close> defaulted to the client's.
\<close>

definition registration_data :: "DocumentSelector \<Rightarrow> Registration \<Rightarrow> RegistrationData" where
  "registration_data clientSelector registration =
     (let options = (case registerOptions registration of
                       Some opts \<Rightarrow> opts
                     | None \<Rightarrow> \<lparr>documentSelector = None, otherOptions = []\<rparr>);
          options' = options\<lparr>documentSelector :=
                       (case documentSelector options of
                          Some s \<Rightarrow> Some s
                        | None \<Rightarrow> Some clientSelector)\<rparr>
      in \<lparr>data_id = reg_id registration, data_registerOptions = options'\<rparr>)"

text \<open>
  \<open>handleRegistrationRequest(params)\<close>: the loop over \<open>params.registrations\<close>. The
  result is the settlement of the returned promise (\<open>Inl\<close> a rejection) with the
  \<open>_dynamicFeatures\<close> map as the loop left it.
\<close>

fun handleRegistrationRequest ::
  "DocumentSelector \<Rightarrow> (string \<times> DynamicFeature) list \<Rightarrow> Registration list
     \<Rightarrow> (registration_error + unit) \<times> (string \<times> DynamicFeature) list" where
  "handleRegistrationRequest clientSelector dynamicFeatures [] = (Inr (), dynamicFeatures)"
| "handleRegistrationRequest clientSelector dynamicFeatures (registration # rest) =
     (case map_of dynamicFeatures (reg_method registration) of
        None \<Rightarrow> (Inl (NoFeatureImplementation (reg_method registration)), dynamicFeatures)
      | Some feature \<Rightarrow>
          (case feature_register (registration_data clientSelector registration) feature of
             Inl err \<Rightarrow> (Inl err, dynamicFeatures)
           | Inr feature' \<Rightarrow>
               handleRegistrationRequest clientSelector
                 (AList.update (reg_method registration) feature' dynamicFeatures) rest))"

text \<open>
  The protocol's values of \<open>LSPErrorCodes\<close>, and two features used as concrete
  inputs: one whose \<open>register\<close> always returns, one whose \<open>register\<close> always
  throws.
\<close>

definition lsp_codes :: LSPErrorCodes where
  "lsp_codes = \<lparr>RequestCancelled = - 32800, ServerCancelled = - 32802, ContentModified = - 32801\<rparr>"

definition accepting_feature :: DynamicFeature where
  "accepting_feature = \<lparr>registrations = [], register_throws = (\<lambda>_ _. None)\<rparr>"

definition rejecting_feature :: DynamicFeature where
  "rejecting_feature = \<lparr>registrations = [], register_throws = (\<lambda>_ _. Some ''command already exists'')\<rparr>"

subsection \<open>Client state and its collaborators\<close>

datatype ClientState =
  Initial | Starting | StartFailed | Running | Suspending | Suspended | Stopping | Stopped

datatype State =
  State_Stopped | State_Starting | State_Running | State_Suspending | State_Suspended

datatype SuspendMode = suspend_off | suspend_on | suspend_activationOnly

text \<open>
  Errors that reach a caller. \<open>ResponseFailure\<close> is a \<open>ResponseError\<close> with its code,
  its message and whether \<open>error.data.retry\<close> is set; \<open>ErrorMessage\<close> is any other
  \<open>Error\<close>; the remaining ones are the errors the client itself throws.
\<close>

datatype client_error =
    ErrorMessage string
  | ResponseFailure int string bool
  | UnsupportedPositionEncoding string string
  | PreviousStartFailed
  | StartingServerFailed
  | StoppingTimedOut

definition message_of :: "client_error \<Rightarrow> string" where
  "message_of e =
     (case e of
        ErrorMessage m \<Rightarrow> m
      | ResponseFailure _ m _ \<Rightarrow> m
      | UnsupportedPositionEncoding enc name \<Rightarrow>
          ''Unsupported position encoding ('' @ enc @ '') received from server '' @ name
      | PreviousStartFailed \<Rightarrow> ''Previous start failed. Can't restart server.''
      | StartingServerFailed \<Rightarrow> ''Starting server failed''
      | StoppingTimedOut \<Rightarrow> ''Stopping the server timed out'')"

text \<open>
  A promise as a caller sees it once the call has run as far as it can: settled, or
  \<open>Pending\<close> while it waits for an operation that is still in flight.
\<close>

datatype promise = Pending | Fulfilled | Rejected client_error

text \<open>Server capabilities: the two entries \<open>doInitialize\<close> reads.\<close>

datatype save_capability = SaveBoolean bool | SaveOptions "bool option"

record TextDocumentSyncOptions =
  openClose :: "bool option"
  change :: "int option"
  willSave :: "bool option"
  willSaveWaitUntil :: "bool option"
  save :: "save_capability option"

datatype textDocumentSync_capability =
    SyncUndefined
  | SyncNull
  | SyncKind int
  | SyncOptions TextDocumentSyncOptions

record ServerCapabilities =
  positionEncoding :: "string option"
  textDocumentSync :: textDocumentSync_capability

record InitializeResult =
  result_capabilities :: ServerCapabilities

record ResolvedCapabilities =
  server_capabilities :: ServerCapabilities
  resolvedTextDocumentSync :: "TextDocumentSyncOptions option"

text \<open>
  Modelled from the spec: the enumeration \<open>TextDocumentSyncKind\<close> is declared in the
  protocol package; its member \<open>None\<close> is the numeric kind 0 (Incremental is 2).
\<close>

definition TextDocumentSyncKind_None :: int where
  "TextDocumentSyncKind_None = 0"

text \<open>
  Handlers are function objects; an application handler is known by its identity. What the
  connection is given is an application handler, the same wrapped for the work-done
  middleware, or a closure the client builds itself.
\<close>

type_synonym handler = nat

datatype bound_handler = App handler | Wrapped handler | Builtin

datatype message_type =
    LogMessageNotification
  | ShowMessageNotification
  | ShowMessageRequest
  | TelemetryEventNotification
  | ShowDocumentRequest
  | PublishDiagnosticsNotification
  | RegistrationRequest
  | UnregistrationRequest
  | ApplyWorkspaceEditRequest
  | InitializedNotification

datatype method_or_type = ByMethod string | ByType message_type

datatype ProgressToken = TokenString string | TokenNumber int

datatype ProgressType = WorkDoneProgress | OtherProgress string

record progress_data =
  progress_type :: ProgressType
  progress_handler :: handler

text \<open>
  The connection is built by the protocol package. The model keeps, for every connection
  created, the calls the client made on it, in order. A \<open>Disposable\<close> returned by a
  binding call names the connection and the position of that call.
\<close>

datatype conn_call =
    OnNotification method_or_type bound_handler
  | OnRequest method_or_type bound_handler
  | OnProgress ProgressType ProgressToken bound_handler
  | Listen
  | InitializeCall
  | SendNotification message_type
  | ShutdownCall
  | ExitCall
  | End
  | Dispose

datatype Disposable = Binding nat nat

datatype notify = Force | Notify bool

datatype output_event =
    ErrorLine string notify
  | InfoLine string
  | ShowErrorMessage string
  | ShowRetryPrompt string
  | ProgressPartCreated
  | ProgressPartDone
  | ProgressPartCancelled

text \<open>Calls started with \<open>void\<close>: they run after the current operation has returned.\<close>

datatype spawned_task = InitializeAgain | StopClient

datatype feature_call = FeatureInitialize string | FeatureDispose string

datatype Diagnostic = Diagnostic string

datatype VDiagnostic = VDiagnostic string

datatype diagnosticQueueState = Idle | Busy string nat

text \<open>
  The options the modelled operations read. The diagnostics middleware receives the URI,
  the converted diagnostics and \<open>next\<close>; its behaviour is the list of calls of \<open>next\<close>
  it makes.
\<close>

record ClientOptions =
  initializationFailedHandler :: "(client_error \<Rightarrow> bool) option"
  progressOnInitialization :: bool
  suspend_mode :: SuspendMode
  handleWorkDoneProgress :: bool
  handleDiagnostics_middleware ::
    "(string \<Rightarrow> VDiagnostic list \<Rightarrow> (string \<times> VDiagnostic list option) list) option"

text \<open>
  The client. The first group are fields of \<open>BaseLanguageClient\<close>; maps are association
  lists in insertion order, as a JavaScript \<open>Map\<close> iterates. \<open>diagnostics\<close> is the
  host's collection, kept as the list of \<open>set\<close> calls it received. The second group is
  the world the client acts on: the connections and their calls, disposed bindings,
  cancellation token sources (true once cancelled), scheduled \<open>setImmediate\<close> callbacks,
  fired state-change events, output and messages, spawned calls, and calls on features.
  Fields read by none of the operations below (trace settings, output channel, file events,
  synced documents) are left out.
\<close>

record client =
  name :: string
  clientOptions :: ClientOptions
  features :: "string list"
  state :: ClientState
  notificationHandlers :: "(string \<times> handler) list"
  notificationDisposables :: "(string \<times> Disposable) list"
  pendingNotificationHandlers :: "(string \<times> handler) list"
  requestHandlers :: "(string \<times> handler) list"
  requestDisposables :: "(string \<times> Disposable) list"
  pendingRequestHandlers :: "(string \<times> handler) list"
  progressHandlers :: "(ProgressToken \<times> progress_data) list"
  pendingProgressHandlers :: "(ProgressToken \<times> progress_data) list"
  progressDisposables :: "(ProgressToken \<times> Disposable) list"
  onStart :: "promise option"
  onStop :: "promise option"
  connection :: "nat option"
  idleInterval :: bool
  initializeResult :: "InitializeResult option"
  capabilities :: "ResolvedCapabilities option"
  diagnostics :: "(string \<times> VDiagnostic list option) list option"
  diagnosticQueue :: "(string \<times> Diagnostic list) list"
  diagnosticQueueState :: diagnosticQueueState
  connections :: "nat \<Rightarrow> conn_call list"
  connectionCount :: nat
  disposed :: "Disposable list"
  tokenSources :: "nat \<Rightarrow> bool"
  tokenSourceCount :: nat
  immediates :: nat
  stateChanges :: "(State \<times> State) list"
  outputs :: "output_event list"
  spawned :: "spawned_task list"
  featureCalls :: "feature_call list"

subsection \<open>Construction, state and logging\<close>

text \<open>The constructor: every map empty, no connection, state \<open>Initial\<close>.\<close>

definition new_client :: "string \<Rightarrow> ClientOptions \<Rightarrow> string list \<Rightarrow> client" where
  "new_client nm options fs =
     \<lparr>name = nm, clientOptions = options, features = fs,
      state = Initial,
      notificationHandlers = [], notificationDisposables = [], pendingNotificationHandlers = [],
      requestHandlers = [], requestDisposables = [], pendingRequestHandlers = [],
      progressHandlers = [], pendingProgressHandlers = [], progressDisposables = [],
      onStart = None, onStop = None, connection = None, idleInterval = False,
      initializeResult = None, capabilities = None, diagnostics = None,
      diagnosticQueue = [], diagnosticQueueState = Idle,
      connections = (\<lambda>_. []), connectionCount = 0, disposed = [],
      tokenSources = (\<lambda>_. False), tokenSourceCount = 0, immediates = 0,
      stateChanges = [], outputs = [], spawned = [], featureCalls = []\<rparr>"

definition getPublicState :: "client \<Rightarrow> State" where
  "getPublicState c =
     (case state c of
        Starting \<Rightarrow> State_Starting
      | Running \<Rightarrow> State_Running
      | Suspending \<Rightarrow> State_Suspending
      | Suspended \<Rightarrow> State_Suspended
      | _ \<Rightarrow> State_Stopped)"

text \<open>The setter of \<open>state\<close>: an event is fired when the public state changes.\<close>

definition set_state :: "ClientState \<Rightarrow> client \<Rightarrow> client" where
  "set_state v c =
     (let oldState = getPublicState c;
          c' = c\<lparr>state := v\<rparr>;
          newState = getPublicState c'
      in if newState \<noteq> oldState
         then c'\<lparr>stateChanges := stateChanges c' @ [(oldState, newState)]\<rparr>
         else c')"

definition emit :: "output_event \<Rightarrow> client \<Rightarrow> client" where
  "emit ev c = c\<lparr>outputs := outputs c @ [ev]\<rparr>"


subsection \<open>Calls on a connection\<close>

definition conn_do :: "nat \<Rightarrow> conn_call \<Rightarrow> client \<Rightarrow> client" where
  "conn_do k call c = c\<lparr>connections := (connections c)(k := connections c k @ [call])\<rparr>"

definition conn_bind :: "nat \<Rightarrow> conn_call \<Rightarrow> client \<Rightarrow> Disposable \<times> client" where
  "conn_bind k call c = (Binding k (length (connections c k)), conn_do k call c)"


subsection \<open>onRequest, onNotification, onProgress\<close>

text \<open>
  Each registration returns a disposable closure. Which closure it is depends on the branch
  taken: \<open>True\<close> when the handler was bound to the live connection at once, \<open>False\<close>
  when it was put into the pending map.
\<close>

datatype registration =
    RequestRegistration bool string
  | NotificationRegistration bool string
  | ProgressRegistration bool ProgressToken





subsection \<open>start, initialize, doInitialize\<close>

text \<open>
  What the world answers during a start: whether \<open>createMessageTransports\<close> throws, the
  settlement of \<open>connection.initialize\<close>, and whether sending the \<open>initialized\<close>
  notification fails.
\<close>

record environment =
  transports :: "client_error option"
  initializeResponse :: "client_error + InitializeResult"
  initializedSent :: "client_error option"

definition createConnection :: "environment \<Rightarrow> client \<Rightarrow> (client_error + nat) \<times> client" where
  "createConnection env c =
     (case transports env of
        Some error \<Rightarrow> (Inl error, c)
      | None \<Rightarrow>
          (let k = connectionCount c
           in (Inr k, c\<lparr>connection := Some k, connectionCount := k + 1,
                         connections := (connections c)(k := [])\<rparr>)))"

text \<open>
  The loops of \<open>start()\<close> that make every registered handler pending unless its key is
  pending already.
\<close>

definition make_pending :: "('k \<times> 'v) list \<Rightarrow> ('k \<times> 'v) list \<Rightarrow> ('k \<times> 'v) list" where
  "make_pending handlers pending =
     fold (\<lambda>(key, h) p. if map_of p key \<noteq> None then p else AList.update key h p) handlers pending"

text \<open>
  The loops of \<open>doInitialize\<close> that bind every pending handler to the connection, record
  the disposable, and clear the pending map.
\<close>

definition bind_notification :: "nat \<Rightarrow> string \<times> handler \<Rightarrow> client \<Rightarrow> client" where
  "bind_notification k entry c =
     (let (d, c1) = conn_bind k (OnNotification (ByMethod (fst entry)) (App (snd entry))) c
      in c1\<lparr>notificationDisposables := AList.update (fst entry) d (notificationDisposables c1)\<rparr>)"

definition bind_pending_notifications :: "nat \<Rightarrow> client \<Rightarrow> client" where
  "bind_pending_notifications k c =
     (fold (bind_notification k) (pendingNotificationHandlers c) c)\<lparr>pendingNotificationHandlers := []\<rparr>"

definition bind_request :: "nat \<Rightarrow> string \<times> handler \<Rightarrow> client \<Rightarrow> client" where
  "bind_request k entry c =
     (let (d, c1) = conn_bind k (OnRequest (ByMethod (fst entry)) (App (snd entry))) c
      in c1\<lparr>requestDisposables := AList.update (fst entry) d (requestDisposables c1)\<rparr>)"

definition bind_pending_requests :: "nat \<Rightarrow> client \<Rightarrow> client" where
  "bind_pending_requests k c =
     (fold (bind_request k) (pendingRequestHandlers c) c)\<lparr>pendingRequestHandlers := []\<rparr>"

definition bind_progress :: "nat \<Rightarrow> ProgressToken \<times> progress_data \<Rightarrow> client \<Rightarrow> client" where
  "bind_progress k entry c =
     (let (d, c1) = conn_bind k (OnProgress (progress_type (snd entry)) (fst entry)
                                   (App (progress_handler (snd entry)))) c
      in c1\<lparr>progressDisposables := AList.update (fst entry) d (progressDisposables c1)\<rparr>)"

definition bind_pending_progress :: "nat \<Rightarrow> client \<Rightarrow> client" where
  "bind_pending_progress k c =
     (fold (bind_progress k) (pendingProgressHandlers c) c)\<lparr>pendingProgressHandlers := []\<rparr>"

text \<open>
  The disposables such a loop records: the binding made for the \<open>i\<close>-th key is the call
  at position \<open>n + i\<close> of connection \<open>k\<close>.
\<close>

fun record_disposables :: "nat \<Rightarrow> nat \<Rightarrow> 'k list \<Rightarrow> ('k \<times> Disposable) list \<Rightarrow> ('k \<times> Disposable) list" where
  "record_disposables k n [] ds = ds"
| "record_disposables k n (key # keys) ds =
     record_disposables k (Suc n) keys (AList.update key (Binding k n) ds)"

text \<open>The handlers the client installs for itself, in \<open>start()\<close> and in \<open>doInitialize\<close>.\<close>

definition start_handlers :: "conn_call list" where
  "start_handlers =
     [OnNotification (ByType LogMessageNotification) Builtin,
      OnNotification (ByType ShowMessageNotification) Builtin,
      OnRequest (ByType ShowMessageRequest) Builtin,
      OnNotification (ByType TelemetryEventNotification) Builtin,
      OnRequest (ByType ShowDocumentRequest) Builtin]"

definition initialize_handlers :: "conn_call list" where
  "initialize_handlers =
     [OnNotification (ByType PublishDiagnosticsNotification) Builtin,
      OnRequest (ByType RegistrationRequest) Builtin,
      OnRequest (ByMethod ''client/registerFeature'') Builtin,
      OnRequest (ByType UnregistrationRequest) Builtin,
      OnRequest (ByMethod ''client/unregisterFeature'') Builtin,
      OnRequest (ByType ApplyWorkspaceEditRequest) Builtin]"

definition conn_do_all :: "nat \<Rightarrow> conn_call list \<Rightarrow> client \<Rightarrow> client" where
  "conn_do_all k calls c = fold (conn_do k) calls c"

text \<open>
  The local \<open>textDocumentSyncOptions\<close> of \<open>doInitialize\<close>: a numeric kind is expanded,
  an options object is taken as it is.
\<close>

definition textDocumentSyncOptions :: "textDocumentSync_capability \<Rightarrow> TextDocumentSyncOptions option" where
  "textDocumentSyncOptions sync =
     (case sync of
        SyncKind kind \<Rightarrow>
          (if kind = TextDocumentSyncKind_None
           then Some \<lparr>openClose = Some False, change = Some TextDocumentSyncKind_None,
                      willSave = None, willSaveWaitUntil = None, save = None\<rparr>
           else Some \<lparr>openClose = Some True, change = Some kind,
                      willSave = None, willSaveWaitUntil = None,
                      save = Some (SaveOptions (Some False))\<rparr>)
      | SyncOptions options \<Rightarrow> Some options
      | SyncUndefined \<Rightarrow> None
      | SyncNull \<Rightarrow> None)"

text \<open>
  The \<open>catch\<close> block of \<open>doInitialize\<close>, up to the rethrow. The retry and the stop it
  asks for are started with \<open>void\<close>; the answer to the retry prompt arrives later.
\<close>

definition initialize_failed :: "client_error \<Rightarrow> client \<Rightarrow> client" where
  "initialize_failed error c =
     (case initializationFailedHandler (clientOptions c) of
        Some failedHandler \<Rightarrow>
          (if failedHandler error then c\<lparr>spawned := spawned c @ [InitializeAgain]\<rparr>
           else c\<lparr>spawned := spawned c @ [StopClient]\<rparr>)
      | None \<Rightarrow>
          (case error of
             ResponseFailure code msg True \<Rightarrow> emit (ShowRetryPrompt msg) c
           | _ \<Rightarrow>
               (let c1 = (if message_of error \<noteq> [] then emit (ShowErrorMessage (message_of error)) c else c);
                    c2 = emit (ErrorLine ''Server initialization failed.'' (Notify True)) c1
                in c2\<lparr>spawned := spawned c2 @ [StopClient]\<rparr>)))"

text \<open>\<open>doInitialize\<close> after the position encoding has been accepted.\<close>

definition doInitialize_accepted ::
  "environment \<Rightarrow> nat \<Rightarrow> InitializeResult \<Rightarrow> client \<Rightarrow> (client_error + InitializeResult) \<times> client" where
  "doInitialize_accepted env k result c =
     (let c1 = c\<lparr>initializeResult := Some result\<rparr>;
          c2 = set_state Running c1;
          c3 = c2\<lparr>capabilities :=
                  Some \<lparr>server_capabilities = result_capabilities result,
                        resolvedTextDocumentSync =
                          textDocumentSyncOptions (textDocumentSync (result_capabilities result))\<rparr>\<rparr>;
          c4 = conn_do_all k initialize_handlers c3;
          c5 = bind_pending_notifications k c4;
          c6 = bind_pending_requests k c5;
          c7 = bind_pending_progress k c6;
          c8 = (if suspend_mode (clientOptions c7) \<noteq> suspend_off then c7\<lparr>idleInterval := True\<rparr> else c7);
          c9 = conn_do k (SendNotification InitializedNotification) c8
      in case initializedSent env of
           Some error \<Rightarrow> (Inl error, initialize_failed error c9)
         | None \<Rightarrow>
             (Inr result, c9\<lparr>featureCalls := featureCalls c9 @ map FeatureInitialize (features c9)\<rparr>))"

definition doInitialize ::
  "environment \<Rightarrow> nat \<Rightarrow> client \<Rightarrow> (client_error + InitializeResult) \<times> client" where
  "doInitialize env k c =
     (let c1 = conn_do k InitializeCall c
      in case initializeResponse env of
           Inl error \<Rightarrow> (Inl error, initialize_failed error c1)
         | Inr result \<Rightarrow>
             (case positionEncoding (result_capabilities result) of
                Some encoding \<Rightarrow>
                  (if encoding \<noteq> ''utf-16''
                   then (Inl (UnsupportedPositionEncoding encoding (name c1)),
                         initialize_failed (UnsupportedPositionEncoding encoding (name c1)) c1)
                   else doInitialize_accepted env k result c1)
              | None \<Rightarrow> doInitialize_accepted env k result c1))"

definition initialize ::
  "environment \<Rightarrow> nat \<Rightarrow> client \<Rightarrow> (client_error + InitializeResult) \<times> client" where
  "initialize env k c =
     (if progressOnInitialization (clientOptions c) then
        (case doInitialize env k (emit ProgressPartCreated c) of
           (Inr result, c1) \<Rightarrow> (Inr result, emit ProgressPartDone c1)
         | (Inl error, c1) \<Rightarrow> (Inl error, emit ProgressPartCancelled c1))
      else doInitialize env k c)"

text \<open>The \<open>catch\<close> block of \<open>start()\<close>.\<close>

definition start_failed :: "client_error \<Rightarrow> client \<Rightarrow> promise \<times> client" where
  "start_failed error c =
     (let c1 = set_state StartFailed c;
          c2 = emit (ErrorLine (name c1 @ '' client: couldn't create connection to server.'') Force) c1
      in (Rejected error, c2\<lparr>onStart := Some (Rejected error)\<rparr>))"

text \<open>
  \<open>start()\<close> in three parts. \<open>start_prepare\<close> runs from the creation of the start
  promise to the state \<open>Starting\<close>: the diagnostic collection is created unless one is
  kept from an earlier run, and every registered handler is made pending.
  \<open>start_connected\<close> is the rest of the \<open>try\<close> block once the connection exists.
\<close>

definition start_prepare :: "client \<Rightarrow> client" where
  "start_prepare c =
     (let c1 = c\<lparr>onStart := Some Pending\<rparr>;
          c2 = (if diagnostics c1 = None then c1\<lparr>diagnostics := Some []\<rparr> else c1);
          c3 = c2\<lparr>pendingNotificationHandlers :=
                  make_pending (notificationHandlers c2) (pendingNotificationHandlers c2)\<rparr>;
          c4 = c3\<lparr>pendingRequestHandlers :=
                  make_pending (requestHandlers c3) (pendingRequestHandlers c3)\<rparr>;
          c5 = c4\<lparr>pendingProgressHandlers :=
                  make_pending (progressHandlers c4) (pendingProgressHandlers c4)\<rparr>
      in set_state Starting c5)"

definition start_connected :: "environment \<Rightarrow> nat \<Rightarrow> client \<Rightarrow> promise \<times> client" where
  "start_connected env k c =
     (let c1 = conn_do_all k start_handlers c;
          c2 = conn_do k Listen c1
      in case initialize env k c2 of
           (Inl error, c3) \<Rightarrow> start_failed error c3
         | (Inr result, c3) \<Rightarrow> (Fulfilled, c3\<lparr>onStart := Some Fulfilled\<rparr>))"

text \<open>
  A start that finds a stop still in flight waits for it; the model returns \<open>Pending\<close>
  there. Otherwise the call runs to the settlement of the start promise.
\<close>

definition start :: "environment \<Rightarrow> client \<Rightarrow> promise \<times> client" where
  "start env c =
     (case onStart c of
        Some p \<Rightarrow> (p, c)
      | None \<Rightarrow>
          (case onStop c of
             Some Pending \<Rightarrow> (Pending, c)
           | Some (Rejected error) \<Rightarrow> (Rejected error, c)
           | _ \<Rightarrow>
               (let c0 = (if onStop c \<noteq> None then c\<lparr>onStop := None\<rparr> else c);
                    c1 = start_prepare c0
                in case createConnection env c1 of
                     (Inl error, c2) \<Rightarrow> start_failed error c2
                   | (Inr k, c2) \<Rightarrow> start_connected env k c2)))"

subsection \<open>stop\<close>

datatype started = Connected nat | Throws client_error | Waits

definition dollar_start :: "environment \<Rightarrow> client \<Rightarrow> started \<times> client" where
  "dollar_start env c =
     (if state c = StartFailed then (Throws PreviousStartFailed, c)
      else case start env c of
             (Rejected error, c1) \<Rightarrow> (Throws error, c1)
           | (Pending, c1) \<Rightarrow> (Waits, c1)
           | (Fulfilled, c1) \<Rightarrow>
               (case connection c1 of
                  None \<Rightarrow> (Throws StartingServerFailed, c1)
                | Some k \<Rightarrow> (Connected k, c1)))"

text \<open>
  \<open>cleanUp(channel, diagnostics)\<close>: features are disposed in reverse order, the diagnostic
  collection and the idle timer are disposed. The output channel is not modelled.
\<close>

definition cleanUp :: "bool \<Rightarrow> bool \<Rightarrow> client \<Rightarrow> client" where
  "cleanUp channel diag c =
     (let c1 = c\<lparr>featureCalls := featureCalls c @ map FeatureDispose (rev (features c))\<rparr>;
          c2 = (if diag \<and> diagnostics c1 \<noteq> None then c1\<lparr>diagnostics := None\<rparr> else c1)
      in if idleInterval c2 then c2\<lparr>idleInterval := False\<rparr> else c2)"

text \<open>
  How the race between the timeout and the shutdown and exit handshake ends: the handshake
  completes first; the timeout fires first (with \<open>exit\<close> already sent or not); or
  \<open>shutdown\<close> or \<open>exit\<close> fails.
\<close>

datatype race_outcome =
    HandshakeWon
  | TimeoutWon bool
  | ShutdownFailed client_error
  | ExitFailed client_error

text \<open>
  \<open>stop()\<close> from taking the connection to creating the race: the state becomes
  \<open>Stopping\<close>, \<open>shutdown\<close> is sent and \<open>_onStop\<close> holds the pending promise.
\<close>

definition stop_begin :: "nat \<Rightarrow> client \<Rightarrow> client" where
  "stop_begin k c =
     (let c1 = c\<lparr>initializeResult := None\<rparr>;
          c2 = set_state Stopping c1;
          c3 = cleanUp False True c2;
          c4 = conn_do k ShutdownCall c3
      in c4\<lparr>onStop := Some Pending\<rparr>)"

text \<open>The callbacks on the race: \<open>then\<close> with its two handlers, and \<open>finally\<close>.\<close>

definition stop_settled :: "race_outcome \<Rightarrow> nat \<Rightarrow> client \<Rightarrow> promise \<times> client" where
  "stop_settled race k c =
     (let (p, c1) =
            (case race of
               HandshakeWon \<Rightarrow>
                 (Fulfilled, conn_do k Dispose (conn_do k End (conn_do k ExitCall c)))
             | TimeoutWon exitSent \<Rightarrow>
                 (Rejected StoppingTimedOut,
                  emit (ErrorLine ''Stopping server timed out'' (Notify False))
                    (if exitSent then conn_do k ExitCall c else c))
             | ShutdownFailed error \<Rightarrow>
                 (Rejected error, emit (ErrorLine ''Stopping server failed'' (Notify False)) c)
             | ExitFailed error \<Rightarrow>
                 (Rejected error,
                  emit (ErrorLine ''Stopping server failed'' (Notify False)) (conn_do k ExitCall c)));
          c2 = set_state Stopped c1
      in (p, c2\<lparr>onStart := None, onStop := None, connection := None\<rparr>))"

definition stop :: "environment \<Rightarrow> race_outcome \<Rightarrow> client \<Rightarrow> promise \<times> client" where
  "stop env race c =
     (if state c = Stopped then (Fulfilled, c)
      else case (if state c = Stopping then onStop c else None) of
             Some p \<Rightarrow> (p, c)
           | None \<Rightarrow>
               (case dollar_start env c of
                  (Throws error, c1) \<Rightarrow> (Rejected error, c1)
                | (Waits, c1) \<Rightarrow> (Pending, c1)
                | (Connected k, c1) \<Rightarrow> stop_settled race k (stop_begin k c1)))"

subsection \<open>The diagnostics queue\<close>












subsection \<open>Calls of an application\<close>








text \<open>
  What holds of the registry in every state an application can reach, between calls: keys
  are not repeated (the lists stand for maps), a pending handler is the registered one
  unless the registration has been disposed since, no stop is in flight, and a running
  client has a connection and nothing pending.
\<close>

definition coherent_maps :: "('k \<times> 'v) list \<Rightarrow> ('k \<times> 'v) list \<Rightarrow> bool" where
  "coherent_maps handlers pending \<longleftrightarrow>
     distinct (map fst handlers) \<and> distinct (map fst pending)
     \<and> (\<forall>key h. map_of pending key = Some h \<longrightarrow>
           map_of handlers key = None \<or> map_of handlers key = Some h)"





subsection \<open>Concrete inputs\<close>

text \<open>
  Options with nothing configured, and a world in which the transports are created, the
  server answers \<open>initialize\<close> with the given position encoding and text document sync
  capability, and the \<open>initialized\<close> notification is sent.
\<close>

definition default_options :: ClientOptions where
  "default_options =
     \<lparr>initializationFailedHandler = None, progressOnInitialization = False,
      suspend_mode = suspend_off, handleWorkDoneProgress = False,
      handleDiagnostics_middleware = None\<rparr>"

definition answering :: "string option \<Rightarrow> textDocumentSync_capability \<Rightarrow> environment" where
  "answering encoding sync =
     \<lparr>transports = None,
      initializeResponse = Inr \<lparr>result_capabilities = \<lparr>positionEncoding = encoding, textDocumentSync = sync\<rparr>\<rparr>,
      initializedSent = None\<rparr>"


section \<open>Properties\<close>

subsection \<open>DefaultErrorHandler.error\<close>

text \<open>
  C8, as stated: a count of at most 3 continues, a larger one shuts down. The code tests
  the truthiness of the count first, so a count of 0 shuts down.
\<close>

theorem C8_error_zero_counterexample:
  "(0::int) \<le> 3 \<and> error_action (DefaultErrorHandler_error (Some 0)) = Shutdown"
  by (simp add: DefaultErrorHandler_error_def truthy_number_def)

text \<open>
  C8, amended: the action is Continue when the count is a number other than 0 and at most
  3; it is Shutdown when the count exceeds 3, is 0, or is undefined.
\<close>

theorem C8_error_action:
  "(n \<noteq> 0 \<and> n \<le> 3 \<longrightarrow> DefaultErrorHandler_error (Some n) = \<lparr>error_action = Continue, error_message = None\<rparr>)
   \<and> (3 < n \<or> n = 0 \<longrightarrow> DefaultErrorHandler_error (Some n) = \<lparr>error_action = Shutdown, error_message = None\<rparr>)
   \<and> DefaultErrorHandler_error None = \<lparr>error_action = Shutdown, error_message = None\<rparr>"
  by (simp add: DefaultErrorHandler_error_def truthy_number_def)

theorem C8_error_action_witness:
  "error_action (DefaultErrorHandler_error (Some 3)) = Continue
   \<and> error_action (DefaultErrorHandler_error (Some 1)) = Continue
   \<and> error_action (DefaultErrorHandler_error (Some 4)) = Shutdown
   \<and> error_action (DefaultErrorHandler_error (Some 0)) = Shutdown"
  using C8_error_action [of 3] C8_error_action [of 1] C8_error_action [of 4] C8_error_action [of 0]
  by simp

subsection \<open>DefaultErrorHandler.closed\<close>

lemma closed_calls_within_count:
  "int (length (restarts h)) + int (length ts) \<le> maxRestartCount h \<Longrightarrow>
     map close_action (fst (closed_calls ts h)) = replicate (length ts) Restart
     \<and> restarts (snd (closed_calls ts h)) = restarts h @ ts
     \<and> maxRestartCount (snd (closed_calls ts h)) = maxRestartCount h"
proof (induction ts arbitrary: h)
  case Nil
  show ?case by simp
next
  case (Cons t ts)
  let ?h1 = "h\<lparr>restarts := restarts h @ [t]\<rparr>"
  from Cons.prems have step: "DefaultErrorHandler_closed t h
      = (\<lparr>close_action = Restart, close_message = None\<rparr>, ?h1)"
    by (simp add: DefaultErrorHandler_closed_def Let_def)
  from Cons.prems have "int (length (restarts ?h1)) + int (length ts) \<le> maxRestartCount ?h1"
    by simp
  from Cons.IH [OF this] show ?case
    by (cases "closed_calls ts ?h1") (simp add: step)
qed

text \<open>
  C4: one call of \<open>closed()\<close> in any state of the handler, reached by any earlier calls.
  While the recorded timestamps (the new one included) number at most \<open>maxRestartCount\<close>
  the result is Restart; beyond that, a span of at most 3 minutes between the oldest and the
  newest timestamp gives DoNotRestart with a message, and a longer span evicts the oldest
  timestamp and gives Restart. Any run of calls that stays within \<open>maxRestartCount\<close>
  recorded timestamps gives Restart throughout. With \<open>maxRestartCount = 2\<close> and closes
  at \<open>t, t+1s, t+2s\<close> and 4 minutes after the first, the results are Restart, Restart,
  DoNotRestart, Restart, and the first timestamp is evicted.
\<close>

theorem C4_closed_windowing:
  "(int (length (restarts h)) + 1 \<le> maxRestartCount h \<longrightarrow>
      DefaultErrorHandler_closed now h =
        (\<lparr>close_action = Restart, close_message = None\<rparr>, h\<lparr>restarts := restarts h @ [now]\<rparr>))
   \<and> (maxRestartCount h < int (length (restarts h)) + 1
        \<and> last (restarts h @ [now]) - hd (restarts h @ [now]) \<le> 180000 \<longrightarrow>
      DefaultErrorHandler_closed now h =
        (\<lparr>close_action = DoNotRestart, close_message = Some (crash_message h)\<rparr>,
         h\<lparr>restarts := restarts h @ [now]\<rparr>))
   \<and> (maxRestartCount h < int (length (restarts h)) + 1
        \<and> 180000 < last (restarts h @ [now]) - hd (restarts h @ [now]) \<longrightarrow>
      DefaultErrorHandler_closed now h =
        (\<lparr>close_action = Restart, close_message = None\<rparr>, h\<lparr>restarts := tl (restarts h @ [now])\<rparr>))
   \<and> (int (length (restarts h)) + int (length ts) \<le> maxRestartCount h \<longrightarrow>
        map close_action (fst (closed_calls ts h)) = replicate (length ts) Restart)
   \<and> map close_action (fst (closed_calls [t, t + 1000, t + 2000, t + 240000]
          \<lparr>client_name = nm, maxRestartCount = 2, restarts = []\<rparr>))
        = [Restart, Restart, DoNotRestart, Restart]
   \<and> restarts (snd (closed_calls [t, t + 1000, t + 2000, t + 240000]
          \<lparr>client_name = nm, maxRestartCount = 2, restarts = []\<rparr>))
        = [t + 1000, t + 2000, t + 240000]"
  using closed_calls_within_count [of h ts]
  by (simp add: DefaultErrorHandler_closed_def Let_def)

theorem C4_closed_windowing_witness:
  "DefaultErrorHandler_closed 1000 \<lparr>client_name = ''srv'', maxRestartCount = 2, restarts = [0]\<rparr>
     = (\<lparr>close_action = Restart, close_message = None\<rparr>,
        \<lparr>client_name = ''srv'', maxRestartCount = 2, restarts = [0, 1000]\<rparr>)
   \<and> close_action (fst (DefaultErrorHandler_closed 2000 \<lparr>client_name = ''srv'', maxRestartCount = 2, restarts = [0, 1000]\<rparr>))
     = DoNotRestart
   \<and> DefaultErrorHandler_closed 240000 \<lparr>client_name = ''srv'', maxRestartCount = 2, restarts = [0, 1000, 2000]\<rparr>
     = (\<lparr>close_action = Restart, close_message = None\<rparr>,
        \<lparr>client_name = ''srv'', maxRestartCount = 2, restarts = [1000, 2000, 240000]\<rparr>)
   \<and> map close_action (fst (closed_calls [10, 20, 30, 40]
         \<lparr>client_name = ''srv'', maxRestartCount = 4, restarts = []\<rparr>))
     = [Restart, Restart, Restart, Restart]"
  using C4_closed_windowing [of "\<lparr>client_name = ''srv'', maxRestartCount = 2, restarts = [0]\<rparr>" 1000 "[]"]
    C4_closed_windowing [of "\<lparr>client_name = ''srv'', maxRestartCount = 2, restarts = [0, 1000]\<rparr>" 2000 "[]"]
    C4_closed_windowing [of "\<lparr>client_name = ''srv'', maxRestartCount = 2, restarts = [0, 1000, 2000]\<rparr>" 240000 "[]"]
    C4_closed_windowing [of "\<lparr>client_name = ''srv'', maxRestartCount = 4, restarts = []\<rparr>" 0 "[10, 20, 30, 40]"]
  by simp

subsection \<open>handleFailedRequest\<close>

text \<open>
  C9: a \<open>ResponseError\<close> with code RequestCancelled or ServerCancelled gives the default
  value when the local token is cancelled, and otherwise throws a cancellation error that
  carries the error's data when there is some; one with code ContentModified throws a
  cancellation error when the method is in the set \<open>RequestsToCancelOnContentModified\<close>
  and gives the default value when it is not. In all these cases nothing is logged.
\<close>

theorem C9_handleFailedRequest:
  "(code = RequestCancelled codes \<or> code = ServerCancelled codes \<longrightarrow>
      handleFailedRequest codes retry method (Some True) (ResponseError code data) dflt notify
        = (Returned dflt, [])
      \<and> (token \<noteq> Some True \<longrightarrow>
           handleFailedRequest codes retry method token (ResponseError code (Some d)) dflt notify
             = (Thrown (LSPCancellationError d), [])
           \<and> handleFailedRequest codes retry method token (ResponseError code None) dflt notify
             = (Thrown CancellationError, [])))
   \<and> (code = ContentModified codes \<and> code \<noteq> RequestCancelled codes \<and> code \<noteq> ServerCancelled codes \<longrightarrow>
        (method \<in> set retry \<longrightarrow>
           handleFailedRequest codes retry method token (ResponseError code data) dflt notify
             = (Thrown CancellationError, []))
        \<and> (method \<notin> set retry \<longrightarrow>
           handleFailedRequest codes retry method token (ResponseError code data) dflt notify
             = (Returned dflt, [])))"
  by (auto simp: handleFailedRequest_def split: option.splits)

theorem C9_handleFailedRequest_witness:
  "handleFailedRequest lsp_codes [''textDocument/semanticTokens/full''] ''textDocument/hover''
      (Some True) (ResponseError (- 32800) (None :: string option)) (0::nat) True = (Returned 0, [])
   \<and> handleFailedRequest lsp_codes [''textDocument/semanticTokens/full''] ''textDocument/hover''
      (Some False) (ResponseError (- 32802) (Some ''busy'')) (0::nat) True = (Thrown (LSPCancellationError ''busy''), [])
   \<and> handleFailedRequest lsp_codes [''textDocument/semanticTokens/full''] ''textDocument/hover''
      None (ResponseError (- 32800) (None :: string option)) (0::nat) True = (Thrown CancellationError, [])
   \<and> handleFailedRequest lsp_codes [''textDocument/semanticTokens/full''] ''textDocument/semanticTokens/full''
      None (ResponseError (- 32801) (None :: string option)) (0::nat) True = (Thrown CancellationError, [])
   \<and> handleFailedRequest lsp_codes [''textDocument/semanticTokens/full''] ''textDocument/hover''
      None (ResponseError (- 32801) (None :: string option)) (0::nat) True = (Returned 0, [])"
  using C9_handleFailedRequest [of "- 32800" lsp_codes "[''textDocument/semanticTokens/full'']"
          "''textDocument/hover''" "None :: string option" "0::nat" True None "''busy''"]
        C9_handleFailedRequest [of "- 32802" lsp_codes "[''textDocument/semanticTokens/full'']"
          "''textDocument/hover''" "None :: string option" "0::nat" True "Some False" "''busy''"]
        C9_handleFailedRequest [of "- 32801" lsp_codes "[''textDocument/semanticTokens/full'']"
          "''textDocument/semanticTokens/full''" "None :: string option" "0::nat" True None "''busy''"]
        C9_handleFailedRequest [of "- 32801" lsp_codes "[''textDocument/semanticTokens/full'']"
          "''textDocument/hover''" "None :: string option" "0::nat" True None "''busy''"]
  by (simp add: lsp_codes_def handleFailedRequest_def)

subsection \<open>handleApplyWorkspaceEdit\<close>

lemma versionMismatch_found:
  "TextDocumentEdit u (Some v) \<in> set changes \<Longrightarrow> 0 < v \<Longrightarrow> openDocs u = Some doc
     \<Longrightarrow> version doc \<noteq> v \<Longrightarrow> versionMismatch openDocs changes"
proof (induction openDocs changes rule: versionMismatch.induct)
  case (1 openDocs)
  then show ?case by simp
next
  case (2 openDocs u' v' changes)
  then show ?case
    by (auto simp: truthy_number_def split: option.splits)
qed auto

lemma versionMismatch_skipped:
  "\<forall>u v. TextDocumentEdit u (Some v) \<in> set changes \<longrightarrow> v < 0
     \<Longrightarrow> \<not> versionMismatch openDocs changes"
proof (induction openDocs changes rule: versionMismatch.induct)
  case (2 openDocs u' v' changes)
  then show ?case
    by (cases v') (fastforce simp: truthy_number_def split: option.splits)+
qed auto

text \<open>
  C3, amended: when \<open>documentChanges\<close> holds a \<open>TextDocumentEdit\<close> whose version
  \<open>v\<close> is positive and whose document is open at another version, the result is
  \<open>applied: false\<close> and \<open>Workspace.applyEdit\<close> is not called. When every versioned
  edit of the list has a negative version, the check is skipped and the edit is handed to
  \<open>Workspace.applyEdit\<close>.
\<close>

theorem C3_stale_edit_refused:
  "(documentChanges edit = Some changes \<and> TextDocumentEdit u (Some v) \<in> set changes \<and> 0 < v
      \<and> openTextDocuments (textDocuments ws) u = Some doc \<and> version doc \<noteq> v
    \<longrightarrow> handleApplyWorkspaceEdit conv ws edit = (\<lparr>applied = False\<rparr>, []))
   \<and> (documentChanges edit = Some changes
        \<and> (\<forall>u v. TextDocumentEdit u (Some v) \<in> set changes \<longrightarrow> v < 0)
    \<longrightarrow> handleApplyWorkspaceEdit conv ws edit
          = (\<lparr>applied = applyEdit ws (conv edit)\<rparr>, [ApplyEdit (conv edit)]))"
  by (auto simp: handleApplyWorkspaceEdit_def Let_def versionMismatch_skipped
           dest: versionMismatch_found)

text \<open>
  C3, as stated, for every version \<open>v\<close>: an edit that names version \<open>-1\<close> of a
  document open at version 1 is not refused, because the check only looks at versions that
  pass \<open>version >= 0\<close>.
\<close>

theorem C3_negative_version_counterexample:
  "openTextDocuments [\<lparr>uri = ''file:///a.ts'', version = 1\<rparr>] ''file:///a.ts''
      = Some \<lparr>uri = ''file:///a.ts'', version = 1\<rparr>
   \<and> (1::int) \<noteq> - 1 \<and> (0::int) \<le> 1
   \<and> handleApplyWorkspaceEdit id
        \<lparr>textDocuments = [\<lparr>uri = ''file:///a.ts'', version = 1\<rparr>], applyEdit = (\<lambda>_. True)\<rparr>
        \<lparr>documentChanges = Some [TextDocumentEdit ''file:///a.ts'' (Some (- 1))]\<rparr>
      = (\<lparr>applied = True\<rparr>,
         [ApplyEdit \<lparr>documentChanges = Some [TextDocumentEdit ''file:///a.ts'' (Some (- 1))]\<rparr>])"
  by (simp add: handleApplyWorkspaceEdit_def openTextDocuments_def truthy_number_def)

theorem C3_stale_edit_refused_witness:
  "handleApplyWorkspaceEdit id
        \<lparr>textDocuments = [\<lparr>uri = ''file:///a.ts'', version = 5\<rparr>], applyEdit = (\<lambda>_. True)\<rparr>
        \<lparr>documentChanges = Some [CreateFile ''file:///b.ts'', TextDocumentEdit ''file:///a.ts'' (Some 4)]\<rparr>
      = (\<lparr>applied = False\<rparr>, [])
   \<and> handleApplyWorkspaceEdit id
        \<lparr>textDocuments = [\<lparr>uri = ''file:///a.ts'', version = 5\<rparr>], applyEdit = (\<lambda>_. True)\<rparr>
        \<lparr>documentChanges = Some [TextDocumentEdit ''file:///a.ts'' (Some (- 1))]\<rparr>
      = (\<lparr>applied = True\<rparr>,
         [ApplyEdit \<lparr>documentChanges = Some [TextDocumentEdit ''file:///a.ts'' (Some (- 1))]\<rparr>])"
  using C3_stale_edit_refused
      [of "\<lparr>documentChanges = Some [CreateFile ''file:///b.ts'', TextDocumentEdit ''file:///a.ts'' (Some 4)]\<rparr>"
          "[CreateFile ''file:///b.ts'', TextDocumentEdit ''file:///a.ts'' (Some 4)]"
          "''file:///a.ts''" 4
          "\<lparr>textDocuments = [\<lparr>uri = ''file:///a.ts'', version = 5\<rparr>], applyEdit = (\<lambda>_. True)\<rparr>"
          "\<lparr>uri = ''file:///a.ts'', version = 5\<rparr>" id]
    C3_stale_edit_refused
      [of "\<lparr>documentChanges = Some [TextDocumentEdit ''file:///a.ts'' (Some (- 1))]\<rparr>"
          "[TextDocumentEdit ''file:///a.ts'' (Some (- 1))]"
          "''file:///a.ts''" 4
          "\<lparr>textDocuments = [\<lparr>uri = ''file:///a.ts'', version = 5\<rparr>], applyEdit = (\<lambda>_. True)\<rparr>"
          "\<lparr>uri = ''file:///a.ts'', version = 5\<rparr>" id]
  by (simp add: openTextDocuments_def)

subsection \<open>handleRegistrationRequest\<close>

lemma handleRegistrationRequest_append:
  "handleRegistrationRequest sel fs (pre @ rest) =
     (case handleRegistrationRequest sel fs pre of
        (Inl e, fs') \<Rightarrow> (Inl e, fs')
      | (Inr _, fs') \<Rightarrow> handleRegistrationRequest sel fs' rest)"
  by (induction pre arbitrary: fs) (auto split: option.splits sum.splits)

lemma handleRegistrationRequest_applied:
  "handleRegistrationRequest sel fs pre = (Inr (), fs') \<Longrightarrow>
     map_of fs' m =
       map_option (\<lambda>f. f\<lparr>registrations := registrations f
                            @ map (registration_data sel) (filter (\<lambda>r. reg_method r = m) pre)\<rparr>)
         (map_of fs m)"
proof (induction pre arbitrary: fs)
  case Nil
  then show ?case by (cases "map_of fs m") auto
next
  case (Cons r pre)
  from Cons.prems obtain f f' where f: "map_of fs (reg_method r) = Some f"
    and f': "feature_register (registration_data sel r) f = Inr f'"
    and rest: "handleRegistrationRequest sel (AList.update (reg_method r) f' fs) pre = (Inr (), fs')"
    by (auto split: option.splits sum.splits)
  from f' have f'_eq: "f' = f\<lparr>registrations := registrations f @ [registration_data sel r]\<rparr>"
    by (auto simp: feature_register_def split: option.splits)
  show ?case
    using Cons.IH [OF rest] f f'_eq
    by (cases "map_of fs m") (auto simp: update_conv')
qed

text \<open>
  C10, amended: when the registrations before the first one with an unknown method are all
  accepted by their features, the request is rejected for the unknown method, every
  registration before it stays applied to its feature, in order, and nothing at or after it
  is applied.
\<close>

theorem C10_registration_not_atomic:
  "handleRegistrationRequest sel fs pre = (Inr (), fs') \<and> map_of fs (reg_method u) = None \<longrightarrow>
     handleRegistrationRequest sel fs (pre @ u # post)
       = (Inl (NoFeatureImplementation (reg_method u)), fs')
     \<and> (\<forall>m. map_of fs' m =
           map_option (\<lambda>f. f\<lparr>registrations := registrations f
                                @ map (registration_data sel) (filter (\<lambda>r. reg_method r = m) pre)\<rparr>)
             (map_of fs m))"
proof (intro impI, elim conjE)
  assume ok: "handleRegistrationRequest sel fs pre = (Inr (), fs')"
    and unknown: "map_of fs (reg_method u) = None"
  have applied: "\<And>m. map_of fs' m =
           map_option (\<lambda>f. f\<lparr>registrations := registrations f
                                @ map (registration_data sel) (filter (\<lambda>r. reg_method r = m) pre)\<rparr>)
             (map_of fs m)"
    by (rule handleRegistrationRequest_applied [OF ok])
  from applied [of "reg_method u"] unknown have "map_of fs' (reg_method u) = None"
    by simp
  then have "handleRegistrationRequest sel fs (pre @ u # post)
       = (Inl (NoFeatureImplementation (reg_method u)), fs')"
    by (simp add: handleRegistrationRequest_append ok)
  with applied show "handleRegistrationRequest sel fs (pre @ u # post)
       = (Inl (NoFeatureImplementation (reg_method u)), fs')
     \<and> (\<forall>m. map_of fs' m =
           map_option (\<lambda>f. f\<lparr>registrations := registrations f
                                @ map (registration_data sel) (filter (\<lambda>r. reg_method r = m) pre)\<rparr>)
             (map_of fs m))"
    by blast
qed

text \<open>
  C10, as stated: a feature's \<open>register\<close> may throw, which ends the loop. Here the first
  registration throws, so the second, which comes before the unknown method, is never
  applied.
\<close>

theorem C10_throwing_register_counterexample:
  "map_of [(''workspace/executeCommand'', rejecting_feature), (''textDocument/hover'', accepting_feature)]
      ''unknown/method'' = None
   \<and> fst (handleRegistrationRequest []
        [(''workspace/executeCommand'', rejecting_feature), (''textDocument/hover'', accepting_feature)]
        [\<lparr>reg_id = ''1'', reg_method = ''workspace/executeCommand'', registerOptions = None\<rparr>,
         \<lparr>reg_id = ''2'', reg_method = ''textDocument/hover'', registerOptions = None\<rparr>,
         \<lparr>reg_id = ''3'', reg_method = ''unknown/method'', registerOptions = None\<rparr>])
      = Inl (RegisterFailed ''command already exists'')
   \<and> map_option registrations (map_of (snd (handleRegistrationRequest []
        [(''workspace/executeCommand'', rejecting_feature), (''textDocument/hover'', accepting_feature)]
        [\<lparr>reg_id = ''1'', reg_method = ''workspace/executeCommand'', registerOptions = None\<rparr>,
         \<lparr>reg_id = ''2'', reg_method = ''textDocument/hover'', registerOptions = None\<rparr>,
         \<lparr>reg_id = ''3'', reg_method = ''unknown/method'', registerOptions = None\<rparr>]))
        ''textDocument/hover'') = Some []"
  by (simp add: rejecting_feature_def accepting_feature_def feature_register_def)

theorem C10_registration_not_atomic_witness:
  "fst (handleRegistrationRequest [''ts'']
        [(''textDocument/hover'', accepting_feature)]
        [\<lparr>reg_id = ''1'', reg_method = ''textDocument/hover'', registerOptions = None\<rparr>,
         \<lparr>reg_id = ''2'', reg_method = ''unknown/method'', registerOptions = None\<rparr>,
         \<lparr>reg_id = ''3'', reg_method = ''textDocument/hover'', registerOptions = None\<rparr>])
      = Inl (NoFeatureImplementation ''unknown/method'')
   \<and> map_option registrations (map_of (snd (handleRegistrationRequest [''ts'']
        [(''textDocument/hover'', accepting_feature)]
        [\<lparr>reg_id = ''1'', reg_method = ''textDocument/hover'', registerOptions = None\<rparr>,
         \<lparr>reg_id = ''2'', reg_method = ''unknown/method'', registerOptions = None\<rparr>,
         \<lparr>reg_id = ''3'', reg_method = ''textDocument/hover'', registerOptions = None\<rparr>]))
        ''textDocument/hover'')
      = Some [\<lparr>data_id = ''1'', data_registerOptions = \<lparr>documentSelector = Some [''ts''], otherOptions = []\<rparr>\<rparr>]"
  using C10_registration_not_atomic
    [of "[''ts'']" "[(''textDocument/hover'', accepting_feature)]"
        "[\<lparr>reg_id = ''1'', reg_method = ''textDocument/hover'', registerOptions = None\<rparr>]"
        "[(''textDocument/hover'', accepting_feature\<lparr>registrations :=
             [\<lparr>data_id = ''1'', data_registerOptions = \<lparr>documentSelector = Some [''ts''], otherOptions = []\<rparr>\<rparr>]\<rparr>)]"
        "\<lparr>reg_id = ''2'', reg_method = ''unknown/method'', registerOptions = None\<rparr>"
        "[\<lparr>reg_id = ''3'', reg_method = ''textDocument/hover'', registerOptions = None\<rparr>]"]
  by (simp add: accepting_feature_def feature_register_def registration_data_def)

subsection \<open>Calls on a connection and the binding loops\<close>

lemma conn_do_all_eq:
  "conn_do_all k calls c = c\<lparr>connections := (connections c)(k := connections c k @ calls)\<rparr>"
  unfolding conn_do_all_def
proof (induction calls arbitrary: c)
  case Nil
  show ?case by simp
next
  case (Cons call calls)
  have "fold (conn_do k) (call # calls) c = fold (conn_do k) calls (conn_do k call c)"
    by simp
  also have "\<dots> = (conn_do k call c)\<lparr>connections :=
      (connections (conn_do k call c))(k := connections (conn_do k call c) k @ calls)\<rparr>"
    by (rule Cons.IH)
  also have "\<dots> = c\<lparr>connections := (connections c)(k := connections c k @ call # calls)\<rparr>"
    by (simp add: conn_do_def)
  finally show ?case .
qed

lemma bind_notification_eq:
  "bind_notification k (method, h) c =
     c\<lparr>connections := (connections c)(k := connections c k @ [OnNotification (ByMethod method) (App h)]),
        notificationDisposables :=
          AList.update method (Binding k (length (connections c k))) (notificationDisposables c)\<rparr>"
  by (simp add: bind_notification_def conn_bind_def conn_do_def)

lemma bind_notifications_fold:
  "fold (bind_notification k) ps c
   = c\<lparr>connections := (connections c)(k := connections c k
          @ map (\<lambda>(method, h). OnNotification (ByMethod method) (App h)) ps),
        notificationDisposables :=
          record_disposables k (length (connections c k)) (map fst ps) (notificationDisposables c)\<rparr>"
proof (induction ps arbitrary: c)
  case Nil
  show ?case by simp
next
  case (Cons p ps)
  obtain m h where p: "p = (m, h)" by (cases p)
  have "fold (bind_notification k) (p # ps) c
          = fold (bind_notification k) ps (bind_notification k (m, h) c)"
    by (simp add: p)
  also have "\<dots> = c\<lparr>connections := (connections c)(k := connections c k
          @ map (\<lambda>(method, h). OnNotification (ByMethod method) (App h)) (p # ps)),
        notificationDisposables :=
          record_disposables k (length (connections c k)) (map fst (p # ps)) (notificationDisposables c)\<rparr>"
    unfolding Cons.IH by (simp add: bind_notification_eq p)
  finally show ?case .
qed

lemma bind_pending_notifications_eq:
  "bind_pending_notifications k c =
     c\<lparr>connections := (connections c)(k := connections c k
          @ map (\<lambda>(method, h). OnNotification (ByMethod method) (App h)) (pendingNotificationHandlers c)),
        notificationDisposables :=
          record_disposables k (length (connections c k)) (map fst (pendingNotificationHandlers c))
            (notificationDisposables c),
        pendingNotificationHandlers := []\<rparr>"
  unfolding bind_pending_notifications_def bind_notifications_fold by simp

lemma bind_request_eq:
  "bind_request k (method, h) c =
     c\<lparr>connections := (connections c)(k := connections c k @ [OnRequest (ByMethod method) (App h)]),
        requestDisposables :=
          AList.update method (Binding k (length (connections c k))) (requestDisposables c)\<rparr>"
  by (simp add: bind_request_def conn_bind_def conn_do_def)

lemma bind_requests_fold:
  "fold (bind_request k) ps c
   = c\<lparr>connections := (connections c)(k := connections c k
          @ map (\<lambda>(method, h). OnRequest (ByMethod method) (App h)) ps),
        requestDisposables :=
          record_disposables k (length (connections c k)) (map fst ps) (requestDisposables c)\<rparr>"
proof (induction ps arbitrary: c)
  case Nil
  show ?case by simp
next
  case (Cons p ps)
  obtain m h where p: "p = (m, h)" by (cases p)
  have "fold (bind_request k) (p # ps) c
          = fold (bind_request k) ps (bind_request k (m, h) c)"
    by (simp add: p)
  also have "\<dots> = c\<lparr>connections := (connections c)(k := connections c k
          @ map (\<lambda>(method, h). OnRequest (ByMethod method) (App h)) (p # ps)),
        requestDisposables :=
          record_disposables k (length (connections c k)) (map fst (p # ps)) (requestDisposables c)\<rparr>"
    unfolding Cons.IH by (simp add: bind_request_eq p)
  finally show ?case .
qed

lemma bind_pending_requests_eq:
  "bind_pending_requests k c =
     c\<lparr>connections := (connections c)(k := connections c k
          @ map (\<lambda>(method, h). OnRequest (ByMethod method) (App h)) (pendingRequestHandlers c)),
        requestDisposables :=
          record_disposables k (length (connections c k)) (map fst (pendingRequestHandlers c))
            (requestDisposables c),
        pendingRequestHandlers := []\<rparr>"
  unfolding bind_pending_requests_def bind_requests_fold by simp

lemma bind_progress_eq:
  "bind_progress k (token, data) c =
     c\<lparr>connections := (connections c)(k := connections c k
          @ [OnProgress (progress_type data) token (App (progress_handler data))]),
        progressDisposables :=
          AList.update token (Binding k (length (connections c k))) (progressDisposables c)\<rparr>"
  by (simp add: bind_progress_def conn_bind_def conn_do_def)

lemma bind_progress_fold:
  "fold (bind_progress k) ps c
   = c\<lparr>connections := (connections c)(k := connections c k
          @ map (\<lambda>(token, data). OnProgress (progress_type data) token (App (progress_handler data))) ps),
        progressDisposables :=
          record_disposables k (length (connections c k)) (map fst ps) (progressDisposables c)\<rparr>"
proof (induction ps arbitrary: c)
  case Nil
  show ?case by simp
next
  case (Cons p ps)
  obtain token data where p: "p = (token, data)" by (cases p)
  have "fold (bind_progress k) (p # ps) c
          = fold (bind_progress k) ps (bind_progress k (token, data) c)"
    by (simp add: p)
  also have "\<dots> = c\<lparr>connections := (connections c)(k := connections c k
          @ map (\<lambda>(token, data). OnProgress (progress_type data) token (App (progress_handler data))) (p # ps)),
        progressDisposables :=
          record_disposables k (length (connections c k)) (map fst (p # ps)) (progressDisposables c)\<rparr>"
    unfolding Cons.IH by (simp add: bind_progress_eq p)
  finally show ?case .
qed

lemma bind_pending_progress_eq:
  "bind_pending_progress k c =
     c\<lparr>connections := (connections c)(k := connections c k
          @ map (\<lambda>(token, data). OnProgress (progress_type data) token (App (progress_handler data)))
              (pendingProgressHandlers c)),
        progressDisposables :=
          record_disposables k (length (connections c k)) (map fst (pendingProgressHandlers c))
            (progressDisposables c),
        pendingProgressHandlers := []\<rparr>"
  unfolding bind_pending_progress_def bind_progress_fold by simp




lemma set_state_eq:
  "set_state v c =
     c\<lparr>state := v,
       stateChanges := stateChanges c
         @ (if getPublicState (c\<lparr>state := v\<rparr>) \<noteq> getPublicState c
            then [(getPublicState c, getPublicState (c\<lparr>state := v\<rparr>))] else [])\<rparr>"
  by (simp add: set_state_def Let_def)

lemma getPublicState_update [simp]:
  "getPublicState (c\<lparr>state := Starting\<rparr>) = State_Starting"
  "getPublicState (c\<lparr>state := Running\<rparr>) = State_Running"
  "getPublicState (c\<lparr>state := StartFailed\<rparr>) = State_Stopped"
  "getPublicState (c\<lparr>state := Stopping\<rparr>) = State_Stopped"
  "getPublicState (c\<lparr>state := Stopped\<rparr>) = State_Stopped"
  by (simp_all add: getPublicState_def)

lemma initialize_failed_frame:
  "state (initialize_failed error c) = state c"
  "stateChanges (initialize_failed error c) = stateChanges c"
  "name (initialize_failed error c) = name c"
  "capabilities (initialize_failed error c) = capabilities c"
  "onStart (initialize_failed error c) = onStart c"
  "onStop (initialize_failed error c) = onStop c"
  "connection (initialize_failed error c) = connection c"
  "connections (initialize_failed error c) = connections c"
  "initializeResult (initialize_failed error c) = initializeResult c"
  by (auto simp: initialize_failed_def emit_def Let_def split: option.splits client_error.splits bool.splits)

subsection \<open>The diagnostics queue\<close>







subsection \<open>A start that succeeds\<close>

lemma doInitialize_accepted_ok:
  assumes i: "initializedSent env = None"
  shows "fst (doInitialize_accepted env k result c) = Inr result"
    and "state (snd (doInitialize_accepted env k result c)) = Running"
    and "connection (snd (doInitialize_accepted env k result c)) = connection c"
    and "onStart (snd (doInitialize_accepted env k result c)) = onStart c"
    and "onStop (snd (doInitialize_accepted env k result c)) = onStop c"
    and "pendingNotificationHandlers (snd (doInitialize_accepted env k result c)) = []"
    and "pendingRequestHandlers (snd (doInitialize_accepted env k result c)) = []"
    and "pendingProgressHandlers (snd (doInitialize_accepted env k result c)) = []"
    and "notificationHandlers (snd (doInitialize_accepted env k result c)) = notificationHandlers c"
    and "requestHandlers (snd (doInitialize_accepted env k result c)) = requestHandlers c"
    and "connections (snd (doInitialize_accepted env k result c)) k =
           connections c k @ initialize_handlers
           @ map (\<lambda>(method, h). OnNotification (ByMethod method) (App h)) (pendingNotificationHandlers c)
           @ map (\<lambda>(method, h). OnRequest (ByMethod method) (App h)) (pendingRequestHandlers c)
           @ map (\<lambda>(token, data). OnProgress (progress_type data) token (App (progress_handler data)))
               (pendingProgressHandlers c)
           @ [SendNotification InitializedNotification]"
    and "notificationDisposables (snd (doInitialize_accepted env k result c)) =
           record_disposables k (length (connections c k) + length initialize_handlers)
             (map fst (pendingNotificationHandlers c)) (notificationDisposables c)"
    and "requestDisposables (snd (doInitialize_accepted env k result c)) =
           record_disposables k
             (length (connections c k) + length initialize_handlers + length (pendingNotificationHandlers c))
             (map fst (pendingRequestHandlers c)) (requestDisposables c)"
  unfolding doInitialize_accepted_def Let_def
  by (simp_all add: i conn_do_all_eq bind_pending_notifications_eq bind_pending_requests_eq
        bind_pending_progress_eq set_state_eq conn_do_def add.assoc)


lemma doInitialize_ok:
  assumes r: "initializeResponse env = Inr result"
    and e: "positionEncoding (result_capabilities result) = None
            \<or> positionEncoding (result_capabilities result) = Some ''utf-16''"
  shows "doInitialize env k c = doInitialize_accepted env k result (conn_do k InitializeCall c)"
  using e unfolding doInitialize_def Let_def by (auto simp: r)

lemma conn_do_fields:
  "state (conn_do k call c) = state c"
  "connection (conn_do k call c) = connection c"
  "onStart (conn_do k call c) = onStart c"
  "onStop (conn_do k call c) = onStop c"
  "pendingNotificationHandlers (conn_do k call c) = pendingNotificationHandlers c"
  "pendingRequestHandlers (conn_do k call c) = pendingRequestHandlers c"
  "pendingProgressHandlers (conn_do k call c) = pendingProgressHandlers c"
  "notificationHandlers (conn_do k call c) = notificationHandlers c"
  "requestHandlers (conn_do k call c) = requestHandlers c"
  "notificationDisposables (conn_do k call c) = notificationDisposables c"
  "requestDisposables (conn_do k call c) = requestDisposables c"
  "clientOptions (conn_do k call c) = clientOptions c"
  "connections (conn_do k call c) k = connections c k @ [call]"
  by (simp_all add: conn_do_def)

lemma emit_fields:
  "state (emit ev c) = state c"
  "connection (emit ev c) = connection c"
  "onStart (emit ev c) = onStart c"
  "onStop (emit ev c) = onStop c"
  "pendingNotificationHandlers (emit ev c) = pendingNotificationHandlers c"
  "pendingRequestHandlers (emit ev c) = pendingRequestHandlers c"
  "pendingProgressHandlers (emit ev c) = pendingProgressHandlers c"
  "notificationHandlers (emit ev c) = notificationHandlers c"
  "requestHandlers (emit ev c) = requestHandlers c"
  "notificationDisposables (emit ev c) = notificationDisposables c"
  "requestDisposables (emit ev c) = requestDisposables c"
  "clientOptions (emit ev c) = clientOptions c"
  "connections (emit ev c) = connections c"
  by (simp_all add: emit_def)

lemma initialize_ok:
  assumes r: "initializeResponse env = Inr result"
    and e: "positionEncoding (result_capabilities result) = None
            \<or> positionEncoding (result_capabilities result) = Some ''utf-16''"
    and i: "initializedSent env = None"
  shows "fst (initialize env k c) = Inr result"
    and "state (snd (initialize env k c)) = Running"
    and "connection (snd (initialize env k c)) = connection c"
    and "onStop (snd (initialize env k c)) = onStop c"
    and "pendingNotificationHandlers (snd (initialize env k c)) = []"
    and "pendingRequestHandlers (snd (initialize env k c)) = []"
    and "pendingProgressHandlers (snd (initialize env k c)) = []"
    and "notificationHandlers (snd (initialize env k c)) = notificationHandlers c"
    and "requestHandlers (snd (initialize env k c)) = requestHandlers c"
    and "connections (snd (initialize env k c)) k =
           connections c k @ [InitializeCall] @ initialize_handlers
           @ map (\<lambda>(method, h). OnNotification (ByMethod method) (App h)) (pendingNotificationHandlers c)
           @ map (\<lambda>(method, h). OnRequest (ByMethod method) (App h)) (pendingRequestHandlers c)
           @ map (\<lambda>(token, data). OnProgress (progress_type data) token (App (progress_handler data)))
               (pendingProgressHandlers c)
           @ [SendNotification InitializedNotification]"
    and "notificationDisposables (snd (initialize env k c)) =
           record_disposables k (length (connections c k) + 1 + length initialize_handlers)
             (map fst (pendingNotificationHandlers c)) (notificationDisposables c)"
    and "requestDisposables (snd (initialize env k c)) =
           record_disposables k
             (length (connections c k) + 1 + length initialize_handlers + length (pendingNotificationHandlers c))
             (map fst (pendingRequestHandlers c)) (requestDisposables c)"
proof -
  note d = doInitialize_ok [OF r e]
  note a = doInitialize_accepted_ok [OF i]
  have split: "initialize env k c =
      (if progressOnInitialization (clientOptions c)
       then (Inr result, emit ProgressPartDone
               (snd (doInitialize_accepted env k result (conn_do k InitializeCall (emit ProgressPartCreated c)))))
       else doInitialize_accepted env k result (conn_do k InitializeCall c))"
    unfolding initialize_def d
    using a(1) [of k result "conn_do k InitializeCall (emit ProgressPartCreated c)"]
    by (auto split: prod.splits sum.splits)
  show "fst (initialize env k c) = Inr result"
    and "state (snd (initialize env k c)) = Running"
    and "connection (snd (initialize env k c)) = connection c"
    and "onStop (snd (initialize env k c)) = onStop c"
    and "pendingNotificationHandlers (snd (initialize env k c)) = []"
    and "pendingRequestHandlers (snd (initialize env k c)) = []"
    and "pendingProgressHandlers (snd (initialize env k c)) = []"
    and "notificationHandlers (snd (initialize env k c)) = notificationHandlers c"
    and "requestHandlers (snd (initialize env k c)) = requestHandlers c"
    and "connections (snd (initialize env k c)) k =
           connections c k @ [InitializeCall] @ initialize_handlers
           @ map (\<lambda>(method, h). OnNotification (ByMethod method) (App h)) (pendingNotificationHandlers c)
           @ map (\<lambda>(method, h). OnRequest (ByMethod method) (App h)) (pendingRequestHandlers c)
           @ map (\<lambda>(token, data). OnProgress (progress_type data) token (App (progress_handler data)))
               (pendingProgressHandlers c)
           @ [SendNotification InitializedNotification]"
    and "notificationDisposables (snd (initialize env k c)) =
           record_disposables k (length (connections c k) + 1 + length initialize_handlers)
             (map fst (pendingNotificationHandlers c)) (notificationDisposables c)"
    and "requestDisposables (snd (initialize env k c)) =
           record_disposables k
             (length (connections c k) + 1 + length initialize_handlers + length (pendingNotificationHandlers c))
             (map fst (pendingRequestHandlers c)) (requestDisposables c)"
    unfolding split
    by (simp_all add: a conn_do_fields emit_fields)
qed


lemma start_prepare_fields:
  "state (start_prepare c) = Starting"
  "connection (start_prepare c) = connection c"
  "connectionCount (start_prepare c) = connectionCount c"
  "connections (start_prepare c) = connections c"
  "onStart (start_prepare c) = Some Pending"
  "onStop (start_prepare c) = onStop c"
  "pendingNotificationHandlers (start_prepare c)
     = make_pending (notificationHandlers c) (pendingNotificationHandlers c)"
  "pendingRequestHandlers (start_prepare c)
     = make_pending (requestHandlers c) (pendingRequestHandlers c)"
  "pendingProgressHandlers (start_prepare c)
     = make_pending (progressHandlers c) (pendingProgressHandlers c)"
  "notificationHandlers (start_prepare c) = notificationHandlers c"
  "requestHandlers (start_prepare c) = requestHandlers c"
  "notificationDisposables (start_prepare c) = notificationDisposables c"
  "requestDisposables (start_prepare c) = requestDisposables c"
  unfolding start_prepare_def Let_def
  by (simp_all add: set_state_eq)

lemma start_reaches_initialize:
  assumes s: "onStart c = None" and o: "onStop c = None \<or> onStop c = Some Fulfilled"
    and t: "transports env = None"
  shows "start env c =
           start_connected env (connectionCount c)
             ((start_prepare (c\<lparr>onStop := None\<rparr>))
                \<lparr>connection := Some (connectionCount c), connectionCount := connectionCount c + 1,
                 connections := (connections c)(connectionCount c := [])\<rparr>)"
proof -
  have c0: "(if onStop c \<noteq> None then c\<lparr>onStop := None\<rparr> else c) = c\<lparr>onStop := None\<rparr>"
    by simp
  show ?thesis
    using o unfolding start_def createConnection_def Let_def c0
    by (auto simp: s t start_prepare_fields)
qed

lemma start_connected_ok:
  assumes r: "initializeResponse env = Inr result"
    and e: "positionEncoding (result_capabilities result) = None
            \<or> positionEncoding (result_capabilities result) = Some ''utf-16''"
    and i: "initializedSent env = None"
  shows "start_connected env k c =
           (Fulfilled, (snd (initialize env k (conn_do k Listen (conn_do_all k start_handlers c))))
                          \<lparr>onStart := Some Fulfilled\<rparr>)"
  unfolding start_connected_def Let_def
  using initialize_ok(1) [OF r e i, of k "conn_do k Listen (conn_do_all k start_handlers c)"]
  by (auto split: prod.splits sum.splits)

lemma start_success:
  assumes s: "onStart c = None" and o: "onStop c = None \<or> onStop c = Some Fulfilled"
    and t: "transports env = None" and r: "initializeResponse env = Inr result"
    and e: "positionEncoding (result_capabilities result) = None
            \<or> positionEncoding (result_capabilities result) = Some ''utf-16''"
    and i: "initializedSent env = None"
  shows "fst (start env c) = Fulfilled"
    and "state (snd (start env c)) = Running"
    and "connection (snd (start env c)) = Some (connectionCount c)"
    and "onStart (snd (start env c)) = Some Fulfilled"
    and "onStop (snd (start env c)) = None"
    and "pendingNotificationHandlers (snd (start env c)) = []"
    and "pendingRequestHandlers (snd (start env c)) = []"
    and "pendingProgressHandlers (snd (start env c)) = []"
    and "notificationHandlers (snd (start env c)) = notificationHandlers c"
    and "requestHandlers (snd (start env c)) = requestHandlers c"
    and "connections (snd (start env c)) (connectionCount c) =
           start_handlers @ [Listen, InitializeCall] @ initialize_handlers
           @ map (\<lambda>(method, h). OnNotification (ByMethod method) (App h))
               (make_pending (notificationHandlers c) (pendingNotificationHandlers c))
           @ map (\<lambda>(method, h). OnRequest (ByMethod method) (App h))
               (make_pending (requestHandlers c) (pendingRequestHandlers c))
           @ map (\<lambda>(token, data). OnProgress (progress_type data) token (App (progress_handler data)))
               (make_pending (progressHandlers c) (pendingProgressHandlers c))
           @ [SendNotification InitializedNotification]"
    and "notificationDisposables (snd (start env c)) =
           record_disposables (connectionCount c) 13
             (map fst (make_pending (notificationHandlers c) (pendingNotificationHandlers c)))
             (notificationDisposables c)"
    and "requestDisposables (snd (start env c)) =
           record_disposables (connectionCount c)
             (13 + length (make_pending (notificationHandlers c) (pendingNotificationHandlers c)))
             (map fst (make_pending (requestHandlers c) (pendingRequestHandlers c)))
             (requestDisposables c)"
  unfolding start_reaches_initialize [OF s o t] start_connected_ok [OF r e i]
  by (simp_all add: initialize_ok [OF r e i] conn_do_fields conn_do_all_eq start_prepare_fields
        start_handlers_def initialize_handlers_def eval_nat_numeral)

subsection \<open>A start that meets an unsupported position encoding\<close>

lemma doInitialize_unsupported:
  assumes "initializeResponse env = Inr result"
    and "positionEncoding (result_capabilities result) = Some enc"
    and "enc \<noteq> ''utf-16''"
  shows "doInitialize env k c =
           (Inl (UnsupportedPositionEncoding enc (name c)),
            initialize_failed (UnsupportedPositionEncoding enc (name c)) (conn_do k InitializeCall c))"
  unfolding doInitialize_def Let_def
  using assms by (simp add: conn_do_def)

lemma initialize_unsupported:
  assumes "initializeResponse env = Inr result"
    and "positionEncoding (result_capabilities result) = Some enc"
    and "enc \<noteq> ''utf-16''"
  shows "initialize env k c =
           (Inl (UnsupportedPositionEncoding enc (name c)),
            if progressOnInitialization (clientOptions c)
            then emit ProgressPartCancelled
                   (initialize_failed (UnsupportedPositionEncoding enc (name c))
                      (conn_do k InitializeCall (emit ProgressPartCreated c)))
            else initialize_failed (UnsupportedPositionEncoding enc (name c)) (conn_do k InitializeCall c))"
  unfolding initialize_def
  by (simp add: doInitialize_unsupported [OF assms] emit_def)

lemma start_prepare_more:
  "name (start_prepare c) = name c"
  "stateChanges (start_prepare c) =
     stateChanges c @ (if getPublicState c = State_Starting then [] else [(getPublicState c, State_Starting)])"
  "clientOptions (start_prepare c) = clientOptions c"
  unfolding start_prepare_def Let_def
  by (auto simp: set_state_eq getPublicState_def)

lemma start_failed_fields:
  "fst (start_failed error c) = Rejected error"
  "state (snd (start_failed error c)) = StartFailed"
  "onStart (snd (start_failed error c)) = Some (Rejected error)"
  "stateChanges (snd (start_failed error c)) =
     stateChanges c @ (if getPublicState c = State_Stopped then [] else [(getPublicState c, State_Stopped)])"
  unfolding start_failed_def Let_def
  by (auto simp: set_state_eq emit_def)

lemma start_unsupported:
  assumes r: "initializeResponse env = Inr result"
    and e: "positionEncoding (result_capabilities result) = Some enc"
    and ne: "enc \<noteq> ''utf-16''"
    and t: "transports env = None" and s: "onStart c = None"
    and o: "onStop c = None \<or> onStop c = Some Fulfilled"
  shows "fst (start env c) = Rejected (UnsupportedPositionEncoding enc (name c))"
    and "state (snd (start env c)) = StartFailed"
    and "stateChanges (snd (start env c)) =
              stateChanges c
              @ (if getPublicState c = State_Starting then [] else [(getPublicState c, State_Starting)])
              @ [(State_Starting, State_Stopped)]"
    and "onStart (snd (start env c)) = Some (Rejected (UnsupportedPositionEncoding enc (name c)))"
proof -
  define c3 where "c3 = conn_do (connectionCount c) Listen (conn_do_all (connectionCount c) start_handlers
             ((start_prepare (c\<lparr>onStop := None\<rparr>))
                \<lparr>connection := Some (connectionCount c), connectionCount := connectionCount c + 1,
                 connections := (connections c)(connectionCount c := [])\<rparr>))"
  have c3: "name c3 = name c" "state c3 = Starting"
    "stateChanges c3 = stateChanges c
        @ (if getPublicState c = State_Starting then [] else [(getPublicState c, State_Starting)])"
    unfolding c3_def
    by (simp_all add: conn_do_def conn_do_all_eq start_prepare_more start_prepare_fields getPublicState_def)
  obtain x where x: "initialize env (connectionCount c) c3 = (Inl (UnsupportedPositionEncoding enc (name c)), x)"
    and xs: "state x = Starting" "stateChanges x = stateChanges c3"
    using initialize_unsupported [OF r e ne, of "connectionCount c" c3]
    by (auto simp: c3 emit_def initialize_failed_frame conn_do_def)
  have st: "start env c = start_failed (UnsupportedPositionEncoding enc (name c)) x"
    unfolding start_reaches_initialize [OF s o t] start_connected_def Let_def
    using x by (simp add: c3_def)
  show "fst (start env c) = Rejected (UnsupportedPositionEncoding enc (name c))"
    and "state (snd (start env c)) = StartFailed"
    and "stateChanges (snd (start env c)) =
              stateChanges c
              @ (if getPublicState c = State_Starting then [] else [(getPublicState c, State_Starting)])
              @ [(State_Starting, State_Stopped)]"
    and "onStart (snd (start env c)) = Some (Rejected (UnsupportedPositionEncoding enc (name c)))"
    unfolding st by (simp_all add: start_failed_fields xs c3 getPublicState_def)
qed

subsection \<open>stop\<close>

lemma cleanUp_frame:
  "state (cleanUp ch dg c) = state c"
  "stateChanges (cleanUp ch dg c) = stateChanges c"
  "onStart (cleanUp ch dg c) = onStart c"
  "onStop (cleanUp ch dg c) = onStop c"
  "connection (cleanUp ch dg c) = connection c"
  "connections (cleanUp ch dg c) = connections c"
  unfolding cleanUp_def Let_def by simp_all

lemma stop_begin_connections:
  "connections (stop_begin k c) k = connections c k @ [ShutdownCall]"
  unfolding stop_begin_def Let_def
  by (simp add: conn_do_def cleanUp_frame set_state_eq)

lemma stop_settled_fields:
  "state (snd (stop_settled race k c)) = Stopped"
  "onStart (snd (stop_settled race k c)) = None"
  "onStop (snd (stop_settled race k c)) = None"
  "connection (snd (stop_settled race k c)) = None"
  unfolding stop_settled_def Let_def
  by (simp_all add: set_state_eq split: race_outcome.splits prod.splits)

lemma stop_settled_result:
  "fst (stop_settled HandshakeWon k c) = Fulfilled"
  "fst (stop_settled (TimeoutWon b) k c) = Rejected StoppingTimedOut"
  "fst (stop_settled (ShutdownFailed e) k c) = Rejected e"
  "fst (stop_settled (ExitFailed e) k c) = Rejected e"
  "connections (snd (stop_settled HandshakeWon k c)) k = connections c k @ [ExitCall, End, Dispose]"
  unfolding stop_settled_def Let_def
  by (simp_all add: set_state_eq conn_do_def)

lemma stop_connected:
  assumes "state c \<noteq> Stopped" and "state c = Stopping \<longrightarrow> onStop c = None"
    and "dollar_start env c = (Connected k, c1)"
  shows "stop env race c = stop_settled race k (stop_begin k c1)"
  using assms unfolding stop_def by auto

subsection \<open>The initialize response\<close>

lemma doInitialize_accepted_capabilities:
  "capabilities (snd (doInitialize_accepted env k result c)) =
     Some \<lparr>server_capabilities = result_capabilities result,
           resolvedTextDocumentSync = textDocumentSyncOptions (textDocumentSync (result_capabilities result))\<rparr>"
  unfolding doInitialize_accepted_def Let_def
  by (simp add: conn_do_all_eq bind_pending_notifications_eq
        bind_pending_requests_eq bind_pending_progress_eq conn_do_def set_state_eq
        initialize_failed_frame split: option.splits)

text \<open>
  C7: when the initialize response is accepted and reports \<open>textDocumentSync\<close> as the
  number 2, \<open>doInitialize\<close> resolves the sync options to \<open>openClose: true\<close>,
  \<open>change: 2\<close>, \<open>save: {includeText: false}\<close>; when it reports the number 0, to
  \<open>openClose: false\<close>, \<open>change: 0\<close> and no \<open>save\<close>.
\<close>

theorem C7_resolved_text_document_sync:
  "initializeResponse env = Inr result
   \<and> (positionEncoding (result_capabilities result) = None
        \<or> positionEncoding (result_capabilities result) = Some ''utf-16'') \<longrightarrow>
     (textDocumentSync (result_capabilities result) = SyncKind 2 \<longrightarrow>
        map_option resolvedTextDocumentSync (capabilities (snd (doInitialize env k c)))
          = Some (Some \<lparr>openClose = Some True, change = Some 2, willSave = None,
                         willSaveWaitUntil = None, save = Some (SaveOptions (Some False))\<rparr>))
     \<and> (textDocumentSync (result_capabilities result) = SyncKind 0 \<longrightarrow>
        map_option resolvedTextDocumentSync (capabilities (snd (doInitialize env k c)))
          = Some (Some \<lparr>openClose = Some False, change = Some 0, willSave = None,
                         willSaveWaitUntil = None, save = None\<rparr>))"
  unfolding doInitialize_def Let_def
  by (auto simp: doInitialize_accepted_capabilities
        textDocumentSyncOptions_def TextDocumentSyncKind_None_def)

theorem C7_resolved_text_document_sync_witness:
  "map_option resolvedTextDocumentSync
       (capabilities (snd (doInitialize (answering None (SyncKind 2)) 0
          (new_client ''srv'' default_options []))))
     = Some (Some \<lparr>openClose = Some True, change = Some 2, willSave = None,
                    willSaveWaitUntil = None, save = Some (SaveOptions (Some False))\<rparr>)
   \<and> map_option resolvedTextDocumentSync
       (capabilities (snd (doInitialize (answering (Some ''utf-16'') (SyncKind 0)) 0
          (new_client ''srv'' default_options []))))
     = Some (Some \<lparr>openClose = Some False, change = Some 0, willSave = None,
                    willSaveWaitUntil = None, save = None\<rparr>)"
  using C7_resolved_text_document_sync
      [of "answering None (SyncKind 2)"
          "\<lparr>result_capabilities = \<lparr>positionEncoding = None, textDocumentSync = SyncKind 2\<rparr>\<rparr>"
          0 "new_client ''srv'' default_options []"]
    C7_resolved_text_document_sync
      [of "answering (Some ''utf-16'') (SyncKind 0)"
          "\<lparr>result_capabilities = \<lparr>positionEncoding = Some ''utf-16'', textDocumentSync = SyncKind 0\<rparr>\<rparr>"
          0 "new_client ''srv'' default_options []"]
  by (simp add: answering_def)

text \<open>
  C6: when the initialize response reports a position encoding other than \<open>utf-16\<close>,
  \<open>doInitialize\<close> throws the unsupported-encoding error and leaves the state, the fired
  state changes and the stored initialize result as they were; a \<open>start()\<close> that gets
  this response is rejected with that error, ends in \<open>StartFailed\<close>, and the only
  state changes it fires are the one to Starting and the one back to Stopped.
\<close>

theorem C6_unsupported_position_encoding:
  "initializeResponse env = Inr result
   \<and> positionEncoding (result_capabilities result) = Some enc \<and> enc \<noteq> ''utf-16'' \<longrightarrow>
     fst (doInitialize env k c) = Inl (UnsupportedPositionEncoding enc (name c))
     \<and> state (snd (doInitialize env k c)) = state c
     \<and> stateChanges (snd (doInitialize env k c)) = stateChanges c
     \<and> initializeResult (snd (doInitialize env k c)) = initializeResult c
     \<and> (transports env = None \<and> onStart c = None \<and> (onStop c = None \<or> onStop c = Some Fulfilled) \<longrightarrow>
          fst (start env c) = Rejected (UnsupportedPositionEncoding enc (name c))
          \<and> state (snd (start env c)) = StartFailed
          \<and> stateChanges (snd (start env c)) =
              stateChanges c
              @ (if getPublicState c = State_Starting then [] else [(getPublicState c, State_Starting)])
              @ [(State_Starting, State_Stopped)])"
proof (intro impI, elim conjE)
  assume r: "initializeResponse env = Inr result"
    and e: "positionEncoding (result_capabilities result) = Some enc"
    and ne: "enc \<noteq> ''utf-16''"
  have part1: "fst (doInitialize env k c) = Inl (UnsupportedPositionEncoding enc (name c))
     \<and> state (snd (doInitialize env k c)) = state c
     \<and> stateChanges (snd (doInitialize env k c)) = stateChanges c
     \<and> initializeResult (snd (doInitialize env k c)) = initializeResult c"
    by (simp add: doInitialize_unsupported [OF r e ne] initialize_failed_frame conn_do_def)
  from part1 start_unsupported(1-3) [OF r e ne]
  show "fst (doInitialize env k c) = Inl (UnsupportedPositionEncoding enc (name c))
     \<and> state (snd (doInitialize env k c)) = state c
     \<and> stateChanges (snd (doInitialize env k c)) = stateChanges c
     \<and> initializeResult (snd (doInitialize env k c)) = initializeResult c
     \<and> (transports env = None \<and> onStart c = None \<and> (onStop c = None \<or> onStop c = Some Fulfilled) \<longrightarrow>
          fst (start env c) = Rejected (UnsupportedPositionEncoding enc (name c))
          \<and> state (snd (start env c)) = StartFailed
          \<and> stateChanges (snd (start env c)) =
              stateChanges c
              @ (if getPublicState c = State_Starting then [] else [(getPublicState c, State_Starting)])
              @ [(State_Starting, State_Stopped)])"
    by blast
qed

theorem C6_unsupported_position_encoding_witness:
  "fst (doInitialize (answering (Some ''utf-8'') SyncUndefined) 0 (new_client ''srv'' default_options []))
      = Inl (UnsupportedPositionEncoding ''utf-8'' ''srv'')
   \<and> fst (start (answering (Some ''utf-8'') SyncUndefined) (new_client ''srv'' default_options []))
      = Rejected (UnsupportedPositionEncoding ''utf-8'' ''srv'')
   \<and> state (snd (start (answering (Some ''utf-8'') SyncUndefined) (new_client ''srv'' default_options [])))
      = StartFailed
   \<and> stateChanges (snd (start (answering (Some ''utf-8'') SyncUndefined) (new_client ''srv'' default_options [])))
      = [(State_Stopped, State_Starting), (State_Starting, State_Stopped)]"
  using C6_unsupported_position_encoding
      [of "answering (Some ''utf-8'') SyncUndefined"
          "\<lparr>result_capabilities = \<lparr>positionEncoding = Some ''utf-8'', textDocumentSync = SyncUndefined\<rparr>\<rparr>"
          "''utf-8''" 0 "new_client ''srv'' default_options []"]
  by (simp add: answering_def new_client_def getPublicState_def)


subsection \<open>The outcomes of stop\<close>

lemma stop_after_failed_start:
  "state c = StartFailed \<Longrightarrow> stop env race c = (Rejected PreviousStartFailed, c)"
  unfolding stop_def dollar_start_def by simp

lemma stop_in_flight:
  "state c = Stopping \<Longrightarrow> onStop c = Some q \<Longrightarrow> stop env race c = (q, c)"
  unfolding stop_def by simp

lemma dollar_start_running:
  "state c \<noteq> StartFailed \<Longrightarrow> onStart c = Some Fulfilled \<Longrightarrow> connection c = Some k
     \<Longrightarrow> dollar_start env c = (Connected k, c)"
  unfolding dollar_start_def start_def by simp

text \<open>
  C5, amended: \<open>stop()\<close> first takes the connection from \<open>$start()\<close>. In state
  \<open>StartFailed\<close> that throws, and \<open>stop()\<close> is rejected with the client unchanged;
  while a stop is in flight, its promise is returned. In every other state but
  \<open>Stopped\<close>, once \<open>$start()\<close> has yielded a connection, every end of the race
  leaves the state \<open>Stopped\<close> and the start promise, the stop promise and the connection
  undefined: \<open>stop()\<close> resolves when the handshake wins, after \<open>end\<close> and
  \<open>dispose\<close> on the connection, and is rejected when the timeout wins or the handshake
  fails. The client can then be started again.
\<close>

theorem C5_stop_outcomes:
  "(state c = StartFailed \<longrightarrow> stop env race c = (Rejected PreviousStartFailed, c))
   \<and> (state c = Stopping \<and> onStop c = Some q \<longrightarrow> stop env race c = (q, c))
   \<and> (state c \<noteq> Stopped \<and> (state c = Stopping \<longrightarrow> onStop c = None)
        \<and> dollar_start env c = (Connected k, c1) \<longrightarrow>
        state (snd (stop env race c)) = Stopped
        \<and> onStart (snd (stop env race c)) = None
        \<and> onStop (snd (stop env race c)) = None
        \<and> connection (snd (stop env race c)) = None
        \<and> (race = HandshakeWon \<longrightarrow>
              fst (stop env race c) = Fulfilled
              \<and> connections (snd (stop env race c)) k
                  = connections c1 k @ [ShutdownCall, ExitCall, End, Dispose])
        \<and> (race = TimeoutWon exitSent \<longrightarrow> fst (stop env race c) = Rejected StoppingTimedOut)
        \<and> (race = ShutdownFailed error \<or> race = ExitFailed error \<longrightarrow>
              fst (stop env race c) = Rejected error)
        \<and> (transports env' = None \<and> initializeResponse env' = Inr result
             \<and> (positionEncoding (result_capabilities result) = None
                  \<or> positionEncoding (result_capabilities result) = Some ''utf-16'')
             \<and> initializedSent env' = None \<longrightarrow>
              fst (start env' (snd (stop env race c))) = Fulfilled
              \<and> state (snd (start env' (snd (stop env race c)))) = Running))"
proof (intro conjI impI)
  assume "state c = StartFailed"
  then show "stop env race c = (Rejected PreviousStartFailed, c)"
    by (rule stop_after_failed_start)
next
  assume "state c = Stopping \<and> onStop c = Some q"
  then show "stop env race c = (q, c)"
    by (simp add: stop_in_flight)
next
  assume a: "state c \<noteq> Stopped \<and> (state c = Stopping \<longrightarrow> onStop c = None)
        \<and> dollar_start env c = (Connected k, c1)"
  then have eq: "stop env race c = stop_settled race k (stop_begin k c1)"
    by (simp add: stop_connected)
  show fields: "state (snd (stop env race c)) = Stopped" "onStart (snd (stop env race c)) = None"
    "onStop (snd (stop env race c)) = None" "connection (snd (stop env race c)) = None"
    unfolding eq by (simp_all add: stop_settled_fields)
  {
    assume "race = TimeoutWon exitSent"
    then show "fst (stop env race c) = Rejected StoppingTimedOut"
      unfolding eq by (simp add: stop_settled_result)
  }
  {
    assume "race = ShutdownFailed error \<or> race = ExitFailed error"
    then show "fst (stop env race c) = Rejected error"
      unfolding eq by (auto simp: stop_settled_result)
  }
  {
    assume "race = HandshakeWon"
    then show "fst (stop env race c) = Fulfilled"
      "connections (snd (stop env race c)) k = connections c1 k @ [ShutdownCall, ExitCall, End, Dispose]"
      unfolding eq by (simp_all add: stop_settled_result stop_begin_connections)
  }
  {
    assume b: "transports env' = None \<and> initializeResponse env' = Inr result
             \<and> (positionEncoding (result_capabilities result) = None
                  \<or> positionEncoding (result_capabilities result) = Some ''utf-16'')
             \<and> initializedSent env' = None"
    have o: "onStop (snd (stop env race c)) = None \<or> onStop (snd (stop env race c)) = Some Fulfilled"
      by (simp add: fields)
    from b show "fst (start env' (snd (stop env race c))) = Fulfilled"
      "state (snd (start env' (snd (stop env race c)))) = Running"
      using start_success(1,2) [OF fields(2) o, of env' result] by simp_all
  }
qed

text \<open>
  C5, as stated, for every client that is not \<open>Stopped\<close>: after a start that failed on
  the position encoding the client is in \<open>StartFailed\<close> (the \<open>stop()\<close> spawned by
  \<open>doInitialize\<close> waits for the start promise and is rejected with it, so it changes
  nothing). A \<open>stop()\<close> on this client is rejected, the state stays \<open>StartFailed\<close>
  and the start promise stays in place.
\<close>

theorem C5_stop_after_failed_start_counterexample:
  "state (snd (start (answering (Some ''utf-8'') SyncUndefined) (new_client ''srv'' default_options [])))
      = StartFailed
   \<and> fst (stop (answering None SyncUndefined) HandshakeWon
        (snd (start (answering (Some ''utf-8'') SyncUndefined) (new_client ''srv'' default_options []))))
      = Rejected PreviousStartFailed
   \<and> state (snd (stop (answering None SyncUndefined) HandshakeWon
        (snd (start (answering (Some ''utf-8'') SyncUndefined) (new_client ''srv'' default_options [])))))
      = StartFailed
   \<and> onStart (snd (stop (answering None SyncUndefined) HandshakeWon
        (snd (start (answering (Some ''utf-8'') SyncUndefined) (new_client ''srv'' default_options [])))))
      = Some (Rejected (UnsupportedPositionEncoding ''utf-8'' ''srv''))"
proof -
  let ?c = "snd (start (answering (Some ''utf-8'') SyncUndefined) (new_client ''srv'' default_options []))"
  have f: "state ?c = StartFailed"
    "onStart ?c = Some (Rejected (UnsupportedPositionEncoding ''utf-8'' ''srv''))"
    using start_unsupported(2,4)
      [of "answering (Some ''utf-8'') SyncUndefined"
          "\<lparr>result_capabilities = \<lparr>positionEncoding = Some ''utf-8'', textDocumentSync = SyncUndefined\<rparr>\<rparr>"
          "''utf-8''" "new_client ''srv'' default_options []"]
    by (simp_all add: answering_def new_client_def)
  show ?thesis
    by (simp add: stop_after_failed_start [OF f(1)] f)
qed

theorem C5_stop_outcomes_witness:
  "fst (stop (answering None SyncUndefined) HandshakeWon
        (snd (start (answering None SyncUndefined) (new_client ''srv'' default_options [''hover'']))))
      = Fulfilled
   \<and> state (snd (stop (answering None SyncUndefined) HandshakeWon
        (snd (start (answering None SyncUndefined) (new_client ''srv'' default_options [''hover''])))))
      = Stopped
   \<and> fst (stop (answering None SyncUndefined) (TimeoutWon False)
        (snd (start (answering None SyncUndefined) (new_client ''srv'' default_options [''hover'']))))
      = Rejected StoppingTimedOut
   \<and> state (snd (stop (answering None SyncUndefined) (TimeoutWon False)
        (snd (start (answering None SyncUndefined) (new_client ''srv'' default_options [''hover''])))))
      = Stopped
   \<and> connection (snd (stop (answering None SyncUndefined) (TimeoutWon False)
        (snd (start (answering None SyncUndefined) (new_client ''srv'' default_options [''hover''])))))
      = None
   \<and> onStart (snd (stop (answering None SyncUndefined) (TimeoutWon False)
        (snd (start (answering None SyncUndefined) (new_client ''srv'' default_options [''hover''])))))
      = None
   \<and> fst (start (answering None SyncUndefined)
        (snd (stop (answering None SyncUndefined) (TimeoutWon False)
          (snd (start (answering None SyncUndefined) (new_client ''srv'' default_options [''hover'']))))))
      = Fulfilled"
proof -
  let ?env = "answering None SyncUndefined"
  let ?result = "\<lparr>result_capabilities = \<lparr>positionEncoding = None, textDocumentSync = SyncUndefined\<rparr>\<rparr>"
  let ?c = "snd (start ?env (new_client ''srv'' default_options [''hover'']))"
  have f: "state ?c = Running" "onStart ?c = Some Fulfilled" "connection ?c = Some 0"
    using start_success(2,4,3) [of "new_client ''srv'' default_options [''hover'']" ?env ?result]
    by (simp_all add: answering_def new_client_def)
  have d: "dollar_start ?env ?c = (Connected 0, ?c)"
    by (rule dollar_start_running) (simp_all add: f)
  have e: "transports ?env = None" "initializeResponse ?env = Inr ?result" "initializedSent ?env = None"
    by (simp_all add: answering_def)
  show ?thesis
    using C5_stop_outcomes [of ?c ?env HandshakeWon Fulfilled 0 ?c False StoppingTimedOut ?env ?result]
      C5_stop_outcomes [of ?c ?env "TimeoutWon False" Fulfilled 0 ?c False StoppingTimedOut ?env ?result]
    by (simp add: f d e)
qed

subsection \<open>The copy loops of start\<close>







lemma coherent_maps_empty: "distinct (map fst hs) \<Longrightarrow> coherent_maps hs []"
  by (simp add: coherent_maps_def)






subsection \<open>What a start and a stop leave of the registry\<close>





























subsection \<open>Registrations and disposals\<close>
























subsection \<open>Registered handlers are bound by a start\<close>























end
